theory Spec2Isabelle
  imports Main
begin

section \<open>Values, sockets and effects\<close>

text \<open>
  The relay of \<^verbatim>\<open>python-server/server.py\<close> (two legs: browser and conversational AI)
  and of \<^verbatim>\<open>python-server/hybrid_server.py\<close> (three legs: browser, conversational AI and
  text-to-speech). Both handle one browser connection in a coroutine
  \<^verbatim>\<open>handle_browser_connection\<close>, which connects upstream, sends a handshake event and then
  runs one forwarding loop per socket under \<^verbatim>\<open>asyncio.gather\<close>.
\<close>

subsection \<open>JSON values as Python holds them\<close>

text \<open>
  What \<^verbatim>\<open>json.loads\<close> returns and \<^verbatim>\<open>json.dumps\<close> takes: \<^verbatim>\<open>None\<close>, booleans, unbounded
  integers, floats, strings, lists and dictionaries (in insertion order, keys unique).
  A float is kept as a decimal \<open>m * 10 ^ e\<close>, an infinity or a NaN; the relay never
  computes with one, it only tests it for truth and passes it on.
\<close>

datatype pyfloat = Dec int int | PInf bool | PNaN

datatype json =
    JNull
  | JBool bool
  | JInt int
  | JFloat pyfloat
  | JStr string
  | JList "json list"
  | JDict "(string \<times> json) list"

text \<open>Python's truth value of an object, as \<^verbatim>\<open>if x:\<close> tests it.\<close>

fun truthy :: "json \<Rightarrow> bool" where
  "truthy JNull = False"
| "truthy (JBool b) = b"
| "truthy (JInt i) = (i \<noteq> 0)"
| "truthy (JFloat (Dec m e)) = (m \<noteq> 0)"
| "truthy (JFloat (PInf s)) = True"
| "truthy (JFloat PNaN) = True"
| "truthy (JStr s) = (s \<noteq> [])"
| "truthy (JList xs) = (xs \<noteq> [])"
| "truthy (JDict d) = (d \<noteq> [])"

subsection \<open>Sockets, exceptions, effects\<close>

text \<open>
  The sockets of the session under study are named by their role; \<open>Other n\<close> is a socket
  of some other session, which shares the registry \<^verbatim>\<open>self.connections\<close> with this one.
\<close>

datatype ws = Browser | AI | TTS | Other nat

datatype exn =
    JSONDecodeError
  | UnicodeDecodeError
  | RecursionError
  | ValueError
  | AttributeError json
  | KeyError string
  | TypeError json
  | IndexError
  | ConnectionClosed ws
  | ConnectError string

text \<open>
  \<open>JSONDecodeError\<close>, \<open>UnicodeDecodeError\<close>, \<open>RecursionError\<close>, \<open>ValueError\<close>: what
  \<^verbatim>\<open>json.loads\<close> raises on a frame that is no JSON text, on bytes that are no UTF-8, on a
  text nested too deep, and on an integer literal with too many digits.
  \<open>AttributeError v\<close>: \<^verbatim>\<open>v.get\<close> on a value \<open>v\<close> that is no dictionary.
  \<open>TypeError v\<close>: \<^verbatim>\<open>v[k]\<close> on a value \<open>v\<close> that is no dictionary.
  \<open>ConnectionClosed s\<close>: \<^verbatim>\<open>websockets.exceptions.ConnectionClosed\<close> on socket \<open>s\<close>.
  \<open>ConnectError msg\<close>: whatever \<^verbatim>\<open>connect\<close> raises, with its message.
\<close>

datatype level = INFO | ERROR

text \<open>
  A piece of text the program builds: a literal, \<^verbatim>\<open>str\<close> of a value, \<^verbatim>\<open>str\<close> of an
  exception, or a socket's \<^verbatim>\<open>remote_address\<close>. The rendering of values, exceptions and
  addresses is Python's and is not modelled.
\<close>

datatype pytext = Lit string | Str json | StrExn exn | Addr ws

text \<open>
  The observable effects, in the order they happen. A log line is its level, the
  f-string with \<open>{}\<close> for each interpolation, and the interpolated pieces.
  \<open>Sent s v\<close> is \<^verbatim>\<open>await s.send(json.dumps(v))\<close>, \<open>SentRaw s m\<close> is \<^verbatim>\<open>await s.send(m)\<close> of a
  frame as received, \<open>Close s code reason\<close> is \<^verbatim>\<open>await s.close(code, reason)\<close>,
  \<open>Connect s uri headers\<close> is the \<^verbatim>\<open>connect\<close> call that opens \<open>s\<close>, and \<open>Insert\<close> and
  \<open>Delete\<close> are the writes to \<^verbatim>\<open>self.connections\<close>.
\<close>

datatype action =
    Log level string "pytext list"
  | Connect ws string "(string \<times> string) list"
  | Sent ws json
  | SentRaw ws string
  | Close ws nat pytext
  | Insert ws
  | Delete ws

subsection \<open>Frames\<close>

text \<open>
  A frame as \<^verbatim>\<open>recv\<close> returns it: its text, and what \<^verbatim>\<open>json.loads\<close> makes of it.
  \<open>Message r (Some v)\<close>: \<^verbatim>\<open>json.loads\<close> returns \<open>v\<close>. \<open>Message r None\<close>: it raises
  \<^verbatim>\<open>JSONDecodeError\<close>. \<open>Unloadable r e\<close>: it raises another exception \<open>e\<close>. So \<open>loads m = None\<close>
  says that \<^verbatim>\<open>json.loads\<close> raises on \<open>m\<close>, and \<open>raised m\<close> is what it raises then.
  \<^verbatim>\<open>await s.recv()\<close> either returns a frame or raises \<^verbatim>\<open>ConnectionClosed\<close> with the close code
  and reason.
\<close>

datatype message =
    Message (raw: string) (loads: "json option")
  | Unloadable (raw: string) (raised: exn)
where
  "loads (Unloadable r e) = None"
| "raised (Message r v) = JSONDecodeError"

datatype recv = Recv message | RecvClosed nat string

text \<open>
  The inputs of a session: what each \<^verbatim>\<open>recv\<close> on one of its sockets returns, in the order
  the event loop delivers them.
\<close>

type_synonym inputs = "(ws \<times> recv) list"

subsection \<open>State and outcomes\<close>

text \<open>
  The state a connection handler works on: which sockets are closed
  (\<^verbatim>\<open>ws.closed\<close>), the registry \<^verbatim>\<open>self.connections\<close> keyed by the browser socket, the local
  \<^verbatim>\<open>session_created\<close> of the handler (which its loops read), and the effects so far.
  With them, what the handler finds of the event loop each time it resumes from an
  \<^verbatim>\<open>await\<close> during which its loops ran: \<open>tasks\<close>, the sockets whose loop task is still
  running, and \<open>pending\<close>, the inputs not yet delivered.
\<close>

record 'e relay =
  closed :: "ws \<Rightarrow> bool"
  connections :: "ws \<rightharpoonup> 'e"
  session_created :: json
  trace :: "action list"
  tasks :: "ws list"
  pending :: inputs

text \<open>
  How a piece of code ends: normally, by an exception, or suspended in an \<^verbatim>\<open>await\<close> that
  nothing completes (the loops are \<^verbatim>\<open>while True\<close>; with no further input they wait).
\<close>

datatype 's outcome = Ok 's | Raise exn 's | Blocked 's

fun state_of :: "'s outcome \<Rightarrow> 's" where
  "state_of (Ok s) = s"
| "state_of (Raise e s) = s"
| "state_of (Blocked s) = s"

definition and_then :: "'s outcome \<Rightarrow> ('s \<Rightarrow> 's outcome) \<Rightarrow> 's outcome" where
  "and_then r f = (case r of Ok s \<Rightarrow> f s | Raise e s \<Rightarrow> Raise e s | Blocked s \<Rightarrow> Blocked s)"

definition emit :: "action \<Rightarrow> 'e relay \<Rightarrow> 'e relay" where
  "emit a st = st\<lparr>trace := trace st @ [a]\<rparr>"

definition logger :: "level \<Rightarrow> string \<Rightarrow> pytext list \<Rightarrow> 'e relay \<Rightarrow> 'e relay" where
  "logger lv fmt args st = emit (Log lv fmt args) st"

text \<open>
  \<^verbatim>\<open>await s.send(json.dumps(v))\<close>: the websockets library raises \<^verbatim>\<open>ConnectionClosed\<close> when
  the socket is closed, and writes the frame otherwise.
\<close>

definition ws_send :: "ws \<Rightarrow> json \<Rightarrow> 'e relay \<Rightarrow> 'e relay outcome" where
  "ws_send s v st =
     (if closed st s then Raise (ConnectionClosed s) st else Ok (emit (Sent s v) st))"

definition ws_send_raw :: "ws \<Rightarrow> string \<Rightarrow> 'e relay \<Rightarrow> 'e relay outcome" where
  "ws_send_raw s m st =
     (if closed st s then Raise (ConnectionClosed s) st else Ok (emit (SentRaw s m) st))"

text \<open>
  \<^verbatim>\<open>await s.close(code, reason)\<close> on a socket that no loop reads: afterwards \<^verbatim>\<open>s.closed\<close>
  holds.
\<close>

definition ws_close :: "ws \<Rightarrow> nat \<Rightarrow> pytext \<Rightarrow> 'e relay \<Rightarrow> 'e relay" where
  "ws_close s code reason st = (emit (Close s code reason) st)\<lparr>closed := (closed st)(s := True)\<rparr>"

subsection \<open>Dictionary access\<close>

text \<open>
  \<^verbatim>\<open>v.get(k, default)\<close>: the value under \<open>k\<close>, the default when the key is missing, and an
  \<^verbatim>\<open>AttributeError\<close> when \<open>v\<close> is no dictionary. \<^verbatim>\<open>v.get(k)\<close> is \<open>py_get v k JNull\<close>.
\<close>

fun py_get :: "json \<Rightarrow> string \<Rightarrow> json \<Rightarrow> exn + json" where
  "py_get (JDict d) k dflt = Inr (case map_of d k of Some v \<Rightarrow> v | None \<Rightarrow> dflt)"
| "py_get v k dflt = Inl (AttributeError v)"

text \<open>
  \<^verbatim>\<open>v[k]\<close> with a string key: a \<^verbatim>\<open>KeyError\<close> when a dictionary lacks the key, a
  \<^verbatim>\<open>TypeError\<close> when \<open>v\<close> is no dictionary.
\<close>

fun py_getitem :: "json \<Rightarrow> string \<Rightarrow> exn + json" where
  "py_getitem (JDict d) k = (case map_of d k of Some v \<Rightarrow> Inr v | None \<Rightarrow> Inl (KeyError k))"
| "py_getitem v k = Inl (TypeError v)"

subsection \<open>Raising and catching\<close>

text \<open>
  Evaluating an expression that may raise, then going on with its value; catching every
  exception of a block (\<^verbatim>\<open>except Exception\<close>, below the more specific clauses).
\<close>

definition eval :: "exn + 'a \<Rightarrow> 's \<Rightarrow> ('a \<Rightarrow> 's outcome) \<Rightarrow> 's outcome" where
  "eval x st f = (case x of Inl e \<Rightarrow> Raise e st | Inr v \<Rightarrow> f v)"

definition catch_all :: "'s outcome \<Rightarrow> (exn \<Rightarrow> 's \<Rightarrow> 's) \<Rightarrow> 's outcome" where
  "catch_all r h = (case r of Raise e s \<Rightarrow> Ok (h e s) | Ok s \<Rightarrow> Ok s | Blocked s \<Rightarrow> Blocked s)"

subsection \<open>The event loop\<close>

text \<open>
  While the handler is suspended in an \<^verbatim>\<open>await\<close>, the event loop delivers the inputs in
  order, each to the loop task that reads its socket: one turn of that loop per input, run
  without interleaving (the relay's \<^verbatim>\<open>send\<close>s are taken not to suspend). \<open>loop s r\<close> is that
  turn, \<open>ts\<close> the sockets whose task is running; an input on a socket that no running task
  reads is never taken. A task ends when an exception leaves its loop. \<open>wake s\<close> says
  whether the end of the task reading \<open>s\<close> is what the handler waits for: if so the handler
  resumes and finds the tasks and inputs that are left; if not the other tasks go on, since
  \<^verbatim>\<open>asyncio.gather\<close> cancels none of its awaitables when one of them has raised. With the
  inputs used up every task waits in its \<^verbatim>\<open>recv\<close>, and the handler with them.
\<close>

fun event_loop ::
  "(ws \<Rightarrow> recv \<Rightarrow> 'e relay \<Rightarrow> 'e relay outcome) \<Rightarrow> (ws \<Rightarrow> bool) \<Rightarrow> ws list \<Rightarrow> inputs \<Rightarrow>
   'e relay \<Rightarrow> 'e relay outcome" where
  "event_loop loop wake ts [] st = Blocked st"
| "event_loop loop wake ts ((s, r) # ins) st =
     (if s \<in> set ts then
        (case loop s r st of
           Ok st1 \<Rightarrow> event_loop loop wake ts ins st1
         | Raise e st1 \<Rightarrow>
             if wake s then Raise e (st1\<lparr>tasks := removeAll s ts, pending := ins\<rparr>)
             else event_loop loop wake (removeAll s ts) ins st1
         | Blocked st1 \<Rightarrow> Blocked st1)
      else event_loop loop wake ts ins st)"

text \<open>
  \<^verbatim>\<open>await s.close(code, reason)\<close> where loops may be running. The close frame is written,
  after which \<^verbatim>\<open>send\<close> on \<open>s\<close> raises; the call returns when the connection is closed. If a
  loop task reads \<open>s\<close>, that is when its \<^verbatim>\<open>recv\<close> raises \<^verbatim>\<open>ConnectionClosed\<close>, the input
  \<open>(s, RecvClosed code reason)\<close>, and until then the event loop goes on delivering inputs to
  the running tasks. If none does, the call is not held up by any input.
\<close>

definition await_close ::
  "(ws \<Rightarrow> recv \<Rightarrow> 'e relay \<Rightarrow> 'e relay outcome) \<Rightarrow> ws \<Rightarrow> nat \<Rightarrow> pytext \<Rightarrow>
   'e relay \<Rightarrow> 'e relay outcome" where
  "await_close loop s code reason st =
     (let st1 = ws_close s code reason st in
      if s \<in> set (tasks st1) then
        (case event_loop loop (\<lambda>s'. s' = s) (tasks st1) (pending st1) st1 of
           Raise e st2 \<Rightarrow> Ok st2
         | out \<Rightarrow> out)
      else Ok st1)"

section \<open>The three-way relay: hybrid\_server.py\<close>

subsection \<open>Configuration and the session descriptor\<close>

record config =
  ELEVENLABS_API_KEY :: string
  ELEVENLABS_AGENT_ID :: string
  ELEVENLABS_VOICE_ID :: string

text \<open>The \<^verbatim>\<open>turn_detection\<close> block, the same in both servers.\<close>

definition turn_detection :: json where
  "turn_detection = JDict
     [(''type'', JStr ''server_vad''),
      (''threshold'', JFloat (Dec 5 (- 1))),
      (''prefix_padding_ms'', JInt 300),
      (''silence_duration_ms'', JInt 200)]"

text \<open>\<^verbatim>\<open>session_created["session"]\<close> and \<^verbatim>\<open>session_created\<close> of hybrid\_server.py, lines 105-128.\<close>

definition hybrid_session :: json where
  "hybrid_session = JDict
     [(''id'', JStr ''elevenlabs_hybrid_session''),
      (''object'', JStr ''realtime.session''),
      (''model'', JStr ''elevenlabs-hybrid''),
      (''modalities'', JList [JStr ''text'', JStr ''audio'']),
      (''instructions'', JStr ''ElevenLabs Hybrid Agent''),
      (''voice'', JStr ''elevenlabs-tts-voice''),
      (''input_audio_format'', JStr ''pcm16''),
      (''output_audio_format'', JStr ''pcm16''),
      (''input_audio_transcription'', JNull),
      (''turn_detection'', turn_detection),
      (''tools'', JList []),
      (''tool_choice'', JStr ''auto''),
      (''temperature'', JFloat (Dec 8 (- 1))),
      (''max_response_output_tokens'', JStr ''inf'')]"

definition hybrid_session_created :: json where
  "hybrid_session_created = JDict [(''type'', JStr ''session.created''), (''session'', hybrid_session)]"

type_synonym hybrid = "(string \<times> ws) list relay"

subsection \<open>The browser loop\<close>

text \<open>The body of the inner \<^verbatim>\<open>try\<close> of \<^verbatim>\<open>handle_browser_messages\<close>, lines 138-161.\<close>

definition hybrid_browser_try :: "message \<Rightarrow> hybrid \<Rightarrow> hybrid outcome" where
  \<open>hybrid_browser_try message st =
     (case loads message of
        None \<Rightarrow> Raise (raised message) st
      | Some event \<Rightarrow>
          eval (py_get event ''type'' JNull) st (\<lambda>event_type.
            if event_type = JStr ''session.update'' then
              (let st1 = logger INFO ''Received session.update, acknowledging'' [] st in
               eval (py_getitem (session_created st1) ''session'') st1 (\<lambda>session.
                 ws_send Browser
                   (JDict [(''type'', JStr ''session.updated''), (''session'', session)]) st1))
            else if event_type = JStr ''input_audio_buffer.append'' then
              (let st1 = logger INFO ''Forwarding audio input to ElevenLabs AI'' [] st in
               eval (py_get event ''audio'' (JStr [])) st1 (\<lambda>audio.
                 ws_send AI (JDict [(''user_audio_chunk'', audio)]) st1))
            else if event_type = JStr ''input_audio_buffer.commit'' then
              Ok (logger INFO ''Committing audio buffer'' [] st)
            else if event_type = JStr ''response.create'' then
              Ok (logger INFO ''Creating response'' [] st)
            else
              Ok (logger INFO ''Received event "{}" from browser'' [Str event_type] st)))\<close>

text \<open>
  One turn of the \<^verbatim>\<open>while True\<close> of \<^verbatim>\<open>handle_browser_messages\<close>, lines 135-170: the
  \<^verbatim>\<open>recv\<close>, the inner \<^verbatim>\<open>try\<close> with its two \<^verbatim>\<open>except\<close> clauses, and the outer
  \<^verbatim>\<open>except ConnectionClosed\<close> that logs and re-raises. \<open>Ok\<close> means the loop goes on to its
  next \<^verbatim>\<open>recv\<close>.
\<close>

definition hybrid_handle_browser_messages :: "recv \<Rightarrow> hybrid \<Rightarrow> hybrid outcome" where
  "hybrid_handle_browser_messages r st =
     (case r of
        Recv message \<Rightarrow>
          catch_all (hybrid_browser_try message st) (\<lambda>e s.
            case e of
              JSONDecodeError \<Rightarrow> logger ERROR ''Invalid JSON from browser: {}'' [Lit (raw message)] s
            | _ \<Rightarrow> logger ERROR ''Error processing browser message: {}'' [StrExn e] s)
      | RecvClosed code reason \<Rightarrow>
          Raise (ConnectionClosed Browser)
            (logger INFO ''Browser connection closed: code={}, reason={}''
               [Str (JInt (int code)), Lit reason] (st\<lparr>closed := (closed st)(Browser := True)\<rparr>)))"

subsection \<open>The conversational-AI loop\<close>

text \<open>The body of the inner \<^verbatim>\<open>try\<close> of \<^verbatim>\<open>handle_elevenlabs_ai_messages\<close>, lines 178-223.\<close>

definition hybrid_ai_try :: "message \<Rightarrow> hybrid \<Rightarrow> hybrid outcome" where
  \<open>hybrid_ai_try message st =
     (case loads message of
        None \<Rightarrow> Raise (raised message) st
      | Some event \<Rightarrow>
          eval (py_get event ''type'' JNull) st (\<lambda>event_type.
            let st1 = logger INFO ''Received AI event: {}'' [Str event_type] st in
            if event_type = JStr ''agent_response'' then
              eval (py_get event ''agent_response_event'' (JDict [])) st1 (\<lambda>agent_response.
              eval (py_get agent_response ''agent_response'' (JStr [])) st1 (\<lambda>text_response.
                if truthy text_response then
                  (let st2 = logger INFO ''Converting to speech: {}'' [Str text_response] st1 in
                   and_then (ws_send TTS
                       (JDict [(''text'', text_response), (''flush'', JBool True)]) st2) (\<lambda>st3.
                   and_then (ws_send Browser
                       (JDict [(''type'', JStr ''response.text.delta''),
                               (''response_id'', JStr ''elevenlabs_response''),
                               (''item_id'', JStr ''elevenlabs_text''),
                               (''output_index'', JInt 0),
                               (''content_index'', JInt 0),
                               (''delta'', text_response)]) st3) (\<lambda>st4.
                   Ok (logger INFO ''Sent text to TTS and forwarded to browser'' [] st4))))
                else Ok st1))
            else if event_type = JStr ''user_transcript'' then
              Ok (logger INFO ''User transcript received'' [] st1)
            else if event_type = JStr ''interruption''
                    \<or> event_type = JStr ''agent_response_correction'' then
              and_then (ws_send Browser (JDict [(''type'', JStr ''conversation.interrupted'')]) st1)
                (\<lambda>st2. Ok (logger INFO ''Relayed interruption from ElevenLabs AI'' [] st2))
            else if event_type = JStr ''ping'' then
              Ok st1
            else
              Ok (logger INFO ''Unhandled AI event "{}": {}''
                    [Str event_type, Lit (raw message)] st1)))\<close>

text \<open>One turn of the \<^verbatim>\<open>while True\<close> of \<^verbatim>\<open>handle_elevenlabs_ai_messages\<close>, lines 175-232.\<close>

definition handle_elevenlabs_ai_messages :: "recv \<Rightarrow> hybrid \<Rightarrow> hybrid outcome" where
  "handle_elevenlabs_ai_messages r st =
     (case r of
        Recv message \<Rightarrow>
          catch_all (hybrid_ai_try message st) (\<lambda>e s.
            case e of
              JSONDecodeError \<Rightarrow>
                logger ERROR ''Invalid JSON from ElevenLabs AI: {}'' [Lit (raw message)] s
            | _ \<Rightarrow> logger ERROR ''Error processing ElevenLabs AI message: {}'' [StrExn e] s)
      | RecvClosed code reason \<Rightarrow>
          Raise (ConnectionClosed AI)
            (logger INFO ''ElevenLabs AI connection closed: code={}, reason={}''
               [Str (JInt (int code)), Lit reason] (st\<lparr>closed := (closed st)(AI := True)\<rparr>)))"

subsection \<open>The text-to-speech loop\<close>

text \<open>The body of the inner \<^verbatim>\<open>try\<close> of \<^verbatim>\<open>handle_elevenlabs_tts_messages\<close>, lines 240-262.\<close>

definition hybrid_tts_try :: "message \<Rightarrow> hybrid \<Rightarrow> hybrid outcome" where
  "hybrid_tts_try message st =
     (case loads message of
        None \<Rightarrow> Raise (raised message) st
      | Some data \<Rightarrow>
          eval (py_get data ''audio'' JNull) st (\<lambda>audio.
            if truthy audio then
              eval (py_getitem data ''audio'') st (\<lambda>audio_data.
                and_then (ws_send Browser
                    (JDict [(''type'', JStr ''response.audio.delta''),
                            (''response_id'', JStr ''elevenlabs_tts_response''),
                            (''item_id'', JStr ''elevenlabs_tts_audio''),
                            (''output_index'', JInt 0),
                            (''content_index'', JInt 0),
                            (''delta'', audio_data)]) st)
                  (\<lambda>st1. Ok (logger INFO ''Relayed TTS audio to browser'' [] st1)))
            else
              eval (py_get data ''isFinal'' JNull) st (\<lambda>is_final.
                if truthy is_final then
                  and_then (ws_send Browser (JDict [(''type'', JStr ''response.audio.done'')]) st)
                    (\<lambda>st1. Ok (logger INFO ''TTS audio generation completed'' [] st1))
                else Ok st)))"

text \<open>One turn of the \<^verbatim>\<open>while True\<close> of \<^verbatim>\<open>handle_elevenlabs_tts_messages\<close>, lines 237-271.\<close>

definition handle_elevenlabs_tts_messages :: "recv \<Rightarrow> hybrid \<Rightarrow> hybrid outcome" where
  "handle_elevenlabs_tts_messages r st =
     (case r of
        Recv message \<Rightarrow>
          catch_all (hybrid_tts_try message st) (\<lambda>e s.
            case e of
              JSONDecodeError \<Rightarrow>
                logger ERROR ''Invalid JSON from ElevenLabs TTS: {}'' [Lit (raw message)] s
            | _ \<Rightarrow> logger ERROR ''Error processing ElevenLabs TTS message: {}'' [StrExn e] s)
      | RecvClosed code reason \<Rightarrow>
          Raise (ConnectionClosed TTS)
            (logger INFO ''ElevenLabs TTS connection closed: code={}, reason={}''
               [Str (JInt (int code)), Lit reason] (st\<lparr>closed := (closed st)(TTS := True)\<rparr>)))"

subsection \<open>The message pump\<close>

text \<open>
  \<^verbatim>\<open>asyncio.gather\<close> of the three loops, lines 274-278: each loop is a task reading its own
  socket, and the \<^verbatim>\<open>await\<close> of the gather ends with the first exception that leaves a loop.
\<close>

fun hybrid_loop :: "ws \<Rightarrow> recv \<Rightarrow> hybrid \<Rightarrow> hybrid outcome" where
  "hybrid_loop Browser r st = hybrid_handle_browser_messages r st"
| "hybrid_loop AI r st = handle_elevenlabs_ai_messages r st"
| "hybrid_loop TTS r st = handle_elevenlabs_tts_messages r st"
| "hybrid_loop (Other n) r st = Ok st"

definition hybrid_gather :: "inputs \<Rightarrow> hybrid \<Rightarrow> hybrid outcome" where
  "hybrid_gather ins st = event_loop hybrid_loop (\<lambda>s. True) [Browser, AI, TTS] ins st"

subsection \<open>Connecting upstream\<close>

text \<open>
  What a \<^verbatim>\<open>connect\<close> call of the websockets library does is an input of the model: it
  returns an open socket or raises.
\<close>

datatype connect_result = Connected | Refused string

text \<open>\<^verbatim>\<open>connect_to_elevenlabs_ai\<close>, lines 27-42.\<close>

definition connect_to_elevenlabs_ai :: "config \<Rightarrow> connect_result \<Rightarrow> 'e relay \<Rightarrow> 'e relay outcome" where
  "connect_to_elevenlabs_ai cfg res st =
     (let uri = ''wss://api.elevenlabs.io/v1/convai/conversation?agent_id='' @ ELEVENLABS_AGENT_ID cfg;
          st1 = emit (Connect AI uri [(''xi-api-key'', ELEVENLABS_API_KEY cfg)]) st
      in case res of
           Connected \<Rightarrow>
             Ok (logger INFO ''Successfully connected to ElevenLabs Conversational AI'' []
                   (st1\<lparr>closed := (closed st1)(AI := False)\<rparr>))
         | Refused msg \<Rightarrow>
             Raise (ConnectError msg)
               (logger ERROR ''Failed to connect to ElevenLabs AI: {}'' [StrExn (ConnectError msg)] st1))"

text \<open>\<^verbatim>\<open>connect_to_elevenlabs_tts\<close>, lines 44-71, with its \<^verbatim>\<open>init_message\<close>.\<close>

definition init_message :: "config \<Rightarrow> json" where
  "init_message cfg = JDict
     [(''text'', JStr '' ''),
      (''voice_settings'', JDict
         [(''stability'', JFloat (Dec 5 (- 1))),
          (''similarity_boost'', JFloat (Dec 8 (- 1))),
          (''use_speaker_boost'', JBool False)]),
      (''generation_config'', JDict
         [(''chunk_length_schedule'', JList [JInt 120, JInt 160, JInt 250, JInt 290])]),
      (''xi_api_key'', JStr (ELEVENLABS_API_KEY cfg))]"

definition connect_to_elevenlabs_tts :: "config \<Rightarrow> connect_result \<Rightarrow> 'e relay \<Rightarrow> 'e relay outcome" where
  "connect_to_elevenlabs_tts cfg res st =
     (let uri = ''wss://api.elevenlabs.io/v1/text-to-speech/'' @ ELEVENLABS_VOICE_ID cfg
                  @ ''/stream-input?model_id=eleven_flash_v2_5'';
          st1 = emit (Connect TTS uri []) st
      in case res of
           Connected \<Rightarrow>
             (let st2 = logger INFO ''Successfully connected to ElevenLabs TTS'' []
                          (st1\<lparr>closed := (closed st1)(TTS := False)\<rparr>)
              in case ws_send TTS (init_message cfg) st2 of
                   Ok st3 \<Rightarrow> Ok (logger INFO ''Initialized ElevenLabs TTS session'' [] st3)
                 | Raise e st3 \<Rightarrow>
                     Raise e (logger ERROR ''Failed to connect to ElevenLabs TTS: {}'' [StrExn e] st3)
                 | Blocked st3 \<Rightarrow> Blocked st3)
         | Refused msg \<Rightarrow>
             Raise (ConnectError msg)
               (logger ERROR ''Failed to connect to ElevenLabs TTS: {}'' [StrExn (ConnectError msg)] st1))"

subsection \<open>One browser connection\<close>

text \<open>
  \<^verbatim>\<open>s.split(c)\<close> for a one-character separator: the pieces between the occurrences of
  \<open>c\<close>, one more than there are occurrences.
\<close>

fun str_split :: "char \<Rightarrow> string \<Rightarrow> string list" where
  "str_split c [] = [[]]"
| "str_split c (x # xs) =
     (if x = c then [] # str_split c xs
      else (case str_split c xs of [] \<Rightarrow> [[x]] | p # ps \<Rightarrow> (x # p) # ps))"

text \<open>
  The \<^verbatim>\<open>try\<close> block of \<^verbatim>\<open>handle_browser_connection\<close>, lines 93-280: both connects, the
  registry entry, the handshake event, and the pump with its
  \<^verbatim>\<open>except ConnectionClosed\<close>.
\<close>

definition hybrid_connection_try ::
  "config \<Rightarrow> connect_result \<Rightarrow> connect_result \<Rightarrow> inputs \<Rightarrow> hybrid \<Rightarrow> hybrid outcome" where
  "hybrid_connection_try cfg ai_res tts_res ins st =
     and_then (connect_to_elevenlabs_ai cfg ai_res st) (\<lambda>st1.
     and_then (connect_to_elevenlabs_tts cfg tts_res st1) (\<lambda>st2.
       let st3 = emit (Insert Browser)
                   (st2\<lparr>connections := (connections st2)(Browser \<mapsto> [(''ai'', AI), (''tts'', TTS)])\<rparr>);
           st4 = logger INFO ''Connected to both ElevenLabs AI and TTS successfully!'' [] st3;
           st5 = st4\<lparr>session_created := hybrid_session_created\<rparr>
       in and_then (ws_send Browser (session_created st5) st5) (\<lambda>st6.
            let st7 = logger INFO ''Sent session.created to browser'' [] st6 in
            case hybrid_gather ins st7 of
              Raise (ConnectionClosed s) st8 \<Rightarrow>
                Ok (logger INFO ''Connection closed, cleaning up'' [] st8)
            | out \<Rightarrow> out)))"

text \<open>The \<^verbatim>\<open>except Exception\<close> clause of the handler, lines 282-285 (server.py: 212-215).\<close>

definition connection_except ::
  "(ws \<Rightarrow> recv \<Rightarrow> 'e relay \<Rightarrow> 'e relay outcome) \<Rightarrow> 'e relay outcome \<Rightarrow> 'e relay outcome" where
  "connection_except loop r =
     (case r of
        Raise e st \<Rightarrow>
          (let st1 = logger ERROR ''Error handling connection: {}'' [StrExn e] st in
           if \<not> closed st1 Browser then await_close loop Browser 1011 (StrExn e) st1 else Ok st1)
      | out \<Rightarrow> out)"

text \<open>The \<^verbatim>\<open>finally\<close> clause, lines 286-296.\<close>

definition hybrid_cleanup :: "hybrid \<Rightarrow> hybrid outcome" where
  "hybrid_cleanup st =
     and_then
       (case connections st Browser of
          None \<Rightarrow> Ok st
        | Some conns \<Rightarrow>
            and_then
              (case map_of conns ''ai'' of
                 Some ai \<Rightarrow>
                   if \<not> closed st ai
                   then await_close hybrid_loop ai 1000 (Lit ''Normal closure'') st else Ok st
               | None \<Rightarrow> Ok st) (\<lambda>st1.
            and_then
              (case map_of conns ''tts'' of
                 Some tts \<Rightarrow>
                   if \<not> closed st1 tts
                   then await_close hybrid_loop tts 1000 (Lit ''Normal closure'') st1 else Ok st1
               | None \<Rightarrow> Ok st1) (\<lambda>st2.
            Ok (emit (Delete Browser) (st2\<lparr>connections := (connections st2)(Browser := None)\<rparr>)))))
       (\<lambda>st3. if \<not> closed st3 Browser
              then await_close hybrid_loop Browser 1000 (Lit ''Normal closure'') st3 else Ok st3)"

text \<open>
  A \<^verbatim>\<open>finally\<close> clause runs when its block ends, normally or by an exception, and the
  exception goes on after it; a block that is still suspended has not reached it.
\<close>

definition try_finally :: "'s outcome \<Rightarrow> ('s \<Rightarrow> 's outcome) \<Rightarrow> 's outcome" where
  "try_finally r f =
     (case r of
        Ok s \<Rightarrow> f s
      | Raise e s \<Rightarrow> (case f s of Ok s1 \<Rightarrow> Raise e s1 | out \<Rightarrow> out)
      | Blocked s \<Rightarrow> Blocked s)"

text \<open>
  \<^verbatim>\<open>HybridElevenLabsRelay.handle_browser_connection\<close>, lines 78-296, for the browser socket
  \<open>Browser\<close> and request path \<open>path\<close>. The results of the two \<^verbatim>\<open>connect\<close> calls and the
  inputs of the pump are given. No loop task of the connection exists before its
  \<^verbatim>\<open>gather\<close>.
\<close>

definition hybrid_handle_browser_connection ::
  "config \<Rightarrow> string \<Rightarrow> connect_result \<Rightarrow> connect_result \<Rightarrow> inputs \<Rightarrow> hybrid \<Rightarrow> hybrid outcome" where
  "hybrid_handle_browser_connection cfg path ai_res tts_res ins st =
     (case str_split (CHR ''?'') path of
        [] \<Rightarrow> Raise IndexError st
      | base_path # _ \<Rightarrow>
          if base_path \<noteq> ''/'' then
            Ok (ws_close Browser 1008 (Lit ''Invalid path'')
                  (logger ERROR ''Invalid path: {}'' [Lit path] st))
          else
            (let st1 = logger INFO ''Browser connected from {}'' [Addr Browser]
                         (st\<lparr>tasks := [], pending := []\<rparr>) in
             try_finally
               (connection_except hybrid_loop (hybrid_connection_try cfg ai_res tts_res ins st1))
               hybrid_cleanup))"

section \<open>The two-way relay: server.py\<close>

text \<open>\<^verbatim>\<open>session_created["session"]\<close> and \<^verbatim>\<open>session_created\<close> of server.py, lines 70-93.\<close>

definition server_session :: json where
  "server_session = JDict
     [(''id'', JStr ''elevenlabs_session''),
      (''object'', JStr ''realtime.session''),
      (''model'', JStr ''elevenlabs-conversational-ai''),
      (''modalities'', JList [JStr ''text'', JStr ''audio'']),
      (''instructions'', JStr ''ElevenLabs Conversational AI Agent''),
      (''voice'', JStr ''elevenlabs-agent-voice''),
      (''input_audio_format'', JStr ''pcm16''),
      (''output_audio_format'', JStr ''pcm16''),
      (''input_audio_transcription'', JNull),
      (''turn_detection'', turn_detection),
      (''tools'', JList []),
      (''tool_choice'', JStr ''auto''),
      (''temperature'', JFloat (Dec 8 (- 1))),
      (''max_response_output_tokens'', JStr ''inf'')]"

definition server_session_created :: json where
  "server_session_created = JDict [(''type'', JStr ''session.created''), (''session'', server_session)]"

type_synonym server = "ws relay"

subsection \<open>The browser loop\<close>

text \<open>The body of the inner \<^verbatim>\<open>try\<close> of \<^verbatim>\<open>handle_browser_messages\<close>, lines 103-135.\<close>

definition browser_try :: "message \<Rightarrow> server \<Rightarrow> server outcome" where
  \<open>browser_try message st =
     (case loads message of
        None \<Rightarrow> Raise (raised message) st
      | Some event \<Rightarrow>
          eval (py_get event ''type'' JNull) st (\<lambda>event_type.
            if event_type = JStr ''session.update'' then
              (let st1 = logger INFO ''Received session.update, acknowledging'' [] st in
               eval (py_getitem (session_created st1) ''session'') st1 (\<lambda>session.
                 ws_send Browser
                   (JDict [(''type'', JStr ''session.updated''), (''session'', session)]) st1))
            else if event_type = JStr ''input_audio_buffer.append'' then
              (let st1 = logger INFO ''Forwarding audio input to ElevenLabs'' [] st in
               eval (py_get event ''audio'' (JStr [])) st1 (\<lambda>audio.
                 ws_send AI (JDict [(''user_audio_chunk'', audio)]) st1))
            else if event_type = JStr ''input_audio_buffer.commit'' then
              Ok (logger INFO ''Committing audio buffer'' [] st)
            else if event_type = JStr ''response.create'' then
              Ok (logger INFO ''Creating response'' [] st)
            else
              Ok (logger INFO ''Received event "{}" from browser'' [Str event_type] st)))\<close>

text \<open>One turn of the \<^verbatim>\<open>while True\<close> of \<^verbatim>\<open>handle_browser_messages\<close>, lines 100-144.\<close>

definition handle_browser_messages :: "recv \<Rightarrow> server \<Rightarrow> server outcome" where
  "handle_browser_messages r st =
     (case r of
        Recv message \<Rightarrow>
          catch_all (browser_try message st) (\<lambda>e s.
            case e of
              JSONDecodeError \<Rightarrow> logger ERROR ''Invalid JSON from browser: {}'' [Lit (raw message)] s
            | _ \<Rightarrow> logger ERROR ''Error processing browser message: {}'' [StrExn e] s)
      | RecvClosed code reason \<Rightarrow>
          Raise (ConnectionClosed Browser)
            (logger INFO ''Browser connection closed: code={}, reason={}''
               [Str (JInt (int code)), Lit reason] (st\<lparr>closed := (closed st)(Browser := True)\<rparr>)))"

subsection \<open>The conversational-AI loop\<close>

text \<open>
  The translation of \<^verbatim>\<open>handle_elevenlabs_messages\<close>, lines 156-191: the chain of
  \<^verbatim>\<open>if\<close>/\<^verbatim>\<open>elif\<close>/\<^verbatim>\<open>else\<close> on the event type.
\<close>

definition elevenlabs_translate :: "message \<Rightarrow> json \<Rightarrow> json \<Rightarrow> server \<Rightarrow> server outcome" where
  \<open>elevenlabs_translate message event event_type st =
     (if event_type = JStr ''audio'' then
        eval (py_get event ''audio_event'' (JDict [])) st (\<lambda>audio_event.
        eval (py_get audio_event ''audio_base_64'' (JStr [])) st (\<lambda>delta.
          and_then (ws_send Browser
              (JDict [(''type'', JStr ''response.audio.delta''),
                      (''response_id'', JStr ''elevenlabs_response''),
                      (''item_id'', JStr ''elevenlabs_audio''),
                      (''output_index'', JInt 0),
                      (''content_index'', JInt 0),
                      (''delta'', delta)]) st)
            (\<lambda>st1. Ok (logger INFO ''Relayed audio from ElevenLabs'' [] st1))))
      else if event_type = JStr ''message'' then
        eval (py_get event ''message'' (JDict [])) st (\<lambda>message_content.
        eval (py_get message_content ''role'' JNull) st (\<lambda>role.
          if role = JStr ''assistant'' then
            eval (py_get message_content ''content'' (JStr [])) st (\<lambda>delta.
              and_then (ws_send Browser
                  (JDict [(''type'', JStr ''response.text.delta''),
                          (''response_id'', JStr ''elevenlabs_response''),
                          (''item_id'', JStr ''elevenlabs_text''),
                          (''output_index'', JInt 0),
                          (''content_index'', JInt 0),
                          (''delta'', delta)]) st)
                (\<lambda>st1. Ok (logger INFO ''Relayed text from ElevenLabs'' [] st1)))
          else Ok st))
      else if event_type = JStr ''interruption'' then
        and_then (ws_send Browser (JDict [(''type'', JStr ''conversation.interrupted'')]) st)
          (\<lambda>st1. Ok (logger INFO ''Relayed interruption from ElevenLabs'' [] st1))
      else
        Ok (logger INFO ''Received event "{}" from ElevenLabs: {}''
              [Str event_type, Lit (raw message)] st))\<close>

text \<open>
  The body of the inner \<^verbatim>\<open>try\<close>, lines 152-193. The \<^verbatim>\<open>await websocket.send(message)\<close> of
  line 193 stands after the chain, at the indentation of its \<^verbatim>\<open>if\<close>: it runs for every
  event the chain has handled without raising, whatever its type.
\<close>

definition elevenlabs_try :: "message \<Rightarrow> server \<Rightarrow> server outcome" where
  "elevenlabs_try message st =
     (case loads message of
        None \<Rightarrow> Raise (raised message) st
      | Some event \<Rightarrow>
          eval (py_get event ''type'' JNull) st (\<lambda>event_type.
            and_then (elevenlabs_translate message event event_type st)
              (ws_send_raw Browser (raw message))))"

text \<open>One turn of the \<^verbatim>\<open>while True\<close> of \<^verbatim>\<open>handle_elevenlabs_messages\<close>, lines 149-202.\<close>

definition handle_elevenlabs_messages :: "recv \<Rightarrow> server \<Rightarrow> server outcome" where
  "handle_elevenlabs_messages r st =
     (case r of
        Recv message \<Rightarrow>
          catch_all (elevenlabs_try message st) (\<lambda>e s.
            case e of
              JSONDecodeError \<Rightarrow> logger ERROR ''Invalid JSON from ElevenLabs: {}'' [Lit (raw message)] s
            | _ \<Rightarrow> logger ERROR ''Error processing ElevenLabs message: {}'' [StrExn e] s)
      | RecvClosed code reason \<Rightarrow>
          Raise (ConnectionClosed AI)
            (logger INFO ''ElevenLabs connection closed: code={}, reason={}''
               [Str (JInt (int code)), Lit reason] (st\<lparr>closed := (closed st)(AI := True)\<rparr>)))"

subsection \<open>The message pump\<close>

text \<open>
  \<^verbatim>\<open>asyncio.gather\<close> of the two loops, lines 205-208; this relay has no text-to-speech
  socket.
\<close>

fun server_loop :: "ws \<Rightarrow> recv \<Rightarrow> server \<Rightarrow> server outcome" where
  "server_loop Browser r st = handle_browser_messages r st"
| "server_loop AI r st = handle_elevenlabs_messages r st"
| "server_loop TTS r st = Ok st"
| "server_loop (Other n) r st = Ok st"

definition gather :: "inputs \<Rightarrow> server \<Rightarrow> server outcome" where
  "gather ins st = event_loop server_loop (\<lambda>s. True) [Browser, AI] ins st"

subsection \<open>One browser connection\<close>

text \<open>\<^verbatim>\<open>connect_to_elevenlabs\<close>, lines 26-41.\<close>

definition connect_to_elevenlabs :: "config \<Rightarrow> connect_result \<Rightarrow> 'e relay \<Rightarrow> 'e relay outcome" where
  "connect_to_elevenlabs cfg res st =
     (let uri = ''wss://api.elevenlabs.io/v1/convai/conversation?agent_id='' @ ELEVENLABS_AGENT_ID cfg;
          st1 = emit (Connect AI uri [(''xi-api-key'', ELEVENLABS_API_KEY cfg)]) st
      in case res of
           Connected \<Rightarrow>
             Ok (logger INFO ''Successfully connected to ElevenLabs Conversational AI'' []
                   (st1\<lparr>closed := (closed st1)(AI := False)\<rparr>))
         | Refused msg \<Rightarrow>
             Raise (ConnectError msg)
               (logger ERROR ''Failed to connect to ElevenLabs: {}'' [StrExn (ConnectError msg)] st1))"

text \<open>The \<^verbatim>\<open>try\<close> block of \<^verbatim>\<open>handle_browser_connection\<close>, lines 63-210.\<close>

definition connection_try :: "config \<Rightarrow> connect_result \<Rightarrow> inputs \<Rightarrow> server \<Rightarrow> server outcome" where
  "connection_try cfg res ins st =
     and_then (connect_to_elevenlabs cfg res st) (\<lambda>st1.
       let st2 = emit (Insert Browser) (st1\<lparr>connections := (connections st1)(Browser \<mapsto> AI)\<rparr>);
           st3 = logger INFO ''Connected to ElevenLabs successfully!'' [] st2;
           st4 = st3\<lparr>session_created := server_session_created\<rparr>
       in and_then (ws_send Browser (session_created st4) st4) (\<lambda>st5.
            let st6 = logger INFO ''Sent session.created to browser'' [] st5 in
            case gather ins st6 of
              Raise (ConnectionClosed s) st7 \<Rightarrow>
                Ok (logger INFO ''Connection closed, cleaning up'' [] st7)
            | out \<Rightarrow> out))"

text \<open>
  The \<^verbatim>\<open>finally\<close> clause, lines 216-223. \<open>elevenlabs_ws\<close> is the handler's local of that
  name: \<^verbatim>\<open>None\<close> until \<^verbatim>\<open>connect_to_elevenlabs\<close> has returned.
\<close>

definition cleanup :: "ws option \<Rightarrow> server \<Rightarrow> server outcome" where
  "cleanup elevenlabs_ws st =
     and_then
       (if Browser \<in> dom (connections st) then
          and_then
            (case elevenlabs_ws of
               Some ews \<Rightarrow>
                 if \<not> closed st ews
                 then await_close server_loop ews 1000 (Lit ''Normal closure'') st else Ok st
             | None \<Rightarrow> Ok st) (\<lambda>st1.
          Ok (emit (Delete Browser) (st1\<lparr>connections := (connections st1)(Browser := None)\<rparr>)))
        else Ok st)
       (\<lambda>st2. if \<not> closed st2 Browser
              then await_close server_loop Browser 1000 (Lit ''Normal closure'') st2 else Ok st2)"

text \<open>\<^verbatim>\<open>ElevenLabsRelay.handle_browser_connection\<close>, lines 49-223.\<close>

definition handle_browser_connection ::
  "config \<Rightarrow> string \<Rightarrow> connect_result \<Rightarrow> inputs \<Rightarrow> server \<Rightarrow> server outcome" where
  "handle_browser_connection cfg path res ins st =
     (case str_split (CHR ''?'') path of
        [] \<Rightarrow> Raise IndexError st
      | base_path # _ \<Rightarrow>
          if base_path \<noteq> ''/'' then
            Ok (ws_close Browser 1008 (Lit ''Invalid path'')
                  (logger ERROR ''Invalid path: {}'' [Lit path] st))
          else
            (let st1 = logger INFO ''Browser connected from {}'' [Addr Browser]
                         (st\<lparr>tasks := [], pending := []\<rparr>) in
             try_finally (connection_except server_loop (connection_try cfg res ins st1))
               (cleanup (case res of Connected \<Rightarrow> Some AI | Refused msg \<Rightarrow> None))))"

section \<open>What the forwarding loops can and cannot do\<close>

text \<open>
  Vocabulary for the properties below. A frame is an input that is a received message (not a
  closed connection). An action is plain I/O when it is a log line or a frame written to a
  socket: no connect, no close, no write to the registry.
\<close>

fun is_frame :: "ws \<times> recv \<Rightarrow> bool" where
  "is_frame (s, Recv m) = True"
| "is_frame (s, RecvClosed code reason) = False"

fun is_io :: "action \<Rightarrow> bool" where
  "is_io (Log lv fmt args) = True"
| "is_io (Sent s v) = True"
| "is_io (SentRaw s m) = True"
| "is_io a = False"

text \<open>
  \<open>only_io st st'\<close>: from \<open>st\<close> to \<open>st'\<close> nothing happened but plain I/O; the sockets'
  \<^verbatim>\<open>closed\<close> flags, the registry, \<^verbatim>\<open>session_created\<close> and the event loop's tasks and inputs
  are what they were.
\<close>

definition only_io :: "'e relay \<Rightarrow> 'e relay \<Rightarrow> bool" where
  "only_io st st' \<longleftrightarrow>
     closed st' = closed st \<and> connections st' = connections st \<and>
     session_created st' = session_created st \<and>
     tasks st' = tasks st \<and> pending st' = pending st \<and>
     (\<exists>ext. trace st' = trace st @ ext \<and> list_all is_io ext)"

definition steps :: "'e relay \<Rightarrow> 'e relay outcome \<Rightarrow> bool" where
  "steps st r \<longleftrightarrow> only_io st (state_of r) \<and> (\<forall>s. r \<noteq> Blocked s)"

text \<open>
  The state in which a connection is accepted in the examples: every socket open, an empty
  registry, nothing done yet; and a configuration for them.
\<close>

definition accepted :: "'e relay" where
  "accepted = \<lparr>closed = (\<lambda>s. False), connections = Map.empty, session_created = JNull,
                trace = [], tasks = [], pending = []\<rparr>"

definition example_config :: config where
  "example_config =
     \<lparr>ELEVENLABS_API_KEY = ''key'', ELEVENLABS_AGENT_ID = ''agent'', ELEVENLABS_VOICE_ID = ''voice''\<rparr>"


text \<open>
  The line a loop logs when its \<^verbatim>\<open>recv\<close> raises \<^verbatim>\<open>ConnectionClosed\<close> with close code
  \<open>code\<close> and reason \<open>reason\<close>, \<open>who\<close> being how the loop names its peer.
\<close>

definition closed_line :: "string \<Rightarrow> nat \<Rightarrow> string \<Rightarrow> action" where
  "closed_line who code reason =
     Log INFO (who @ '' connection closed: code={}, reason={}'')
       [Str (JInt (int code)), Lit reason]"

text \<open>
  The state in which the pump of a connection starts, \<open>st\<close> being the state at accept: what
  the handlers have done by then when every \<^verbatim>\<open>connect\<close> succeeded and the browser socket was
  open for the handshake event.
\<close>

definition hybrid_started :: "config \<Rightarrow> hybrid \<Rightarrow> hybrid" where
  "hybrid_started cfg st =
     st\<lparr>tasks := [], pending := [],
        closed := (closed st)(AI := False, TTS := False),
        connections := (connections st)(Browser \<mapsto> [(''ai'', AI), (''tts'', TTS)]),
        session_created := hybrid_session_created,
        trace := trace st @
          [Log INFO ''Browser connected from {}'' [Addr Browser],
           Connect AI (''wss://api.elevenlabs.io/v1/convai/conversation?agent_id=''
                         @ ELEVENLABS_AGENT_ID cfg)
             [(''xi-api-key'', ELEVENLABS_API_KEY cfg)],
           Log INFO ''Successfully connected to ElevenLabs Conversational AI'' [],
           Connect TTS (''wss://api.elevenlabs.io/v1/text-to-speech/'' @ ELEVENLABS_VOICE_ID cfg
                          @ ''/stream-input?model_id=eleven_flash_v2_5'') [],
           Log INFO ''Successfully connected to ElevenLabs TTS'' [],
           Sent TTS (init_message cfg),
           Log INFO ''Initialized ElevenLabs TTS session'' [],
           Insert Browser,
           Log INFO ''Connected to both ElevenLabs AI and TTS successfully!'' [],
           Sent Browser hybrid_session_created,
           Log INFO ''Sent session.created to browser'' []]\<rparr>"

definition server_started :: "config \<Rightarrow> server \<Rightarrow> server" where
  "server_started cfg st =
     st\<lparr>tasks := [], pending := [],
        closed := (closed st)(AI := False),
        connections := (connections st)(Browser \<mapsto> AI),
        session_created := server_session_created,
        trace := trace st @
          [Log INFO ''Browser connected from {}'' [Addr Browser],
           Connect AI (''wss://api.elevenlabs.io/v1/convai/conversation?agent_id=''
                         @ ELEVENLABS_AGENT_ID cfg)
             [(''xi-api-key'', ELEVENLABS_API_KEY cfg)],
           Log INFO ''Successfully connected to ElevenLabs Conversational AI'' [],
           Insert Browser,
           Log INFO ''Connected to ElevenLabs successfully!'' [],
           Sent Browser server_session_created,
           Log INFO ''Sent session.created to browser'' []]\<rparr>"

subsection \<open>The loops only log and send\<close>

lemmas relay_defs = emit_def logger_def ws_send_def ws_send_raw_def ws_close_def eval_def
  catch_all_def and_then_def try_finally_def

lemma only_io_refl: "only_io st st"
  by (simp add: only_io_def)

lemma only_io_trans: "only_io a b \<Longrightarrow> only_io b c \<Longrightarrow> only_io a c"
  by (auto simp: only_io_def)

lemma only_io_logger: "only_io st st1 \<Longrightarrow> only_io st (logger lv fmt args st1)"
  by (auto simp: only_io_def logger_def emit_def)

lemma steps_Ok: "only_io st st1 \<Longrightarrow> steps st (Ok st1)"
  by (simp add: steps_def)

lemma steps_Raise: "only_io st st1 \<Longrightarrow> steps st (Raise e st1)"
  by (simp add: steps_def)

lemma steps_send: "only_io st st1 \<Longrightarrow> steps st (ws_send s v st1)"
  by (auto simp: steps_def only_io_def ws_send_def emit_def)

lemma steps_send_raw: "only_io st st1 \<Longrightarrow> steps st (ws_send_raw s m st1)"
  by (auto simp: steps_def only_io_def ws_send_raw_def emit_def)

lemma steps_eval: "only_io st st1 \<Longrightarrow> (\<And>v. steps st (f v)) \<Longrightarrow> steps st (eval x st1 f)"
  by (cases x) (simp_all add: eval_def steps_def)

lemma steps_and_then:
  "steps st r \<Longrightarrow> (\<And>s. only_io st s \<Longrightarrow> steps st (f s)) \<Longrightarrow> steps st (and_then r f)"
  by (cases r) (simp_all add: and_then_def steps_def)

lemma steps_catch_all:
  "steps st r \<Longrightarrow> (\<And>e s. only_io st s \<Longrightarrow> only_io st (h e s)) \<Longrightarrow>
   \<exists>st'. catch_all r h = Ok st' \<and> only_io st st'"
  by (cases r) (simp_all add: catch_all_def steps_def)

lemma steps_if:
  "(c \<Longrightarrow> steps st a) \<Longrightarrow> (\<not> c \<Longrightarrow> steps st b) \<Longrightarrow> steps st (if c then a else b)"
  by simp

lemma steps_case_option:
  "(x = None \<Longrightarrow> steps st a) \<Longrightarrow> (\<And>v. x = Some v \<Longrightarrow> steps st (f v)) \<Longrightarrow>
   steps st (case x of None \<Rightarrow> a | Some v \<Rightarrow> f v)"
  by (cases x) simp_all

lemmas steps_intros = steps_if steps_case_option steps_eval steps_and_then steps_send
  steps_send_raw steps_Ok steps_Raise only_io_logger only_io_refl

lemma steps_hybrid_browser_try: "steps st (hybrid_browser_try m st)"
  unfolding hybrid_browser_try_def Let_def
  by (rule steps_intros | assumption)+

lemma steps_hybrid_ai_try: "steps st (hybrid_ai_try m st)"
  unfolding hybrid_ai_try_def Let_def
  by (rule steps_intros | assumption)+

lemma steps_hybrid_tts_try: "steps st (hybrid_tts_try m st)"
  unfolding hybrid_tts_try_def Let_def
  by (rule steps_intros | assumption)+

lemma steps_browser_try: "steps st (browser_try m st)"
  unfolding browser_try_def Let_def
  by (rule steps_intros | assumption)+

lemma steps_elevenlabs_translate:
  "only_io st st1 \<Longrightarrow> steps st (elevenlabs_translate m ev ty st1)"
  unfolding elevenlabs_translate_def Let_def
  by (rule steps_intros | assumption)+

lemma steps_elevenlabs_try: "steps st (elevenlabs_try m st)"
  unfolding elevenlabs_try_def Let_def
  by (rule steps_intros steps_elevenlabs_translate | assumption)+

lemma only_io_handler:
  "only_io st s \<Longrightarrow>
   only_io st (case e of JSONDecodeError \<Rightarrow> logger l1 f1 a1 s | _ \<Rightarrow> logger l2 f2 a2 s)"
  by (cases e) (simp_all add: only_io_logger)

lemma frame_hybrid_browser:
  "\<exists>st'. hybrid_handle_browser_messages (Recv m) st = Ok st' \<and> only_io st st'"
  unfolding hybrid_handle_browser_messages_def recv.case
  by (rule steps_catch_all [OF steps_hybrid_browser_try]) (rule only_io_handler)

lemma frame_hybrid_ai:
  "\<exists>st'. handle_elevenlabs_ai_messages (Recv m) st = Ok st' \<and> only_io st st'"
  unfolding handle_elevenlabs_ai_messages_def recv.case
  by (rule steps_catch_all [OF steps_hybrid_ai_try]) (rule only_io_handler)

lemma frame_hybrid_tts:
  "\<exists>st'. handle_elevenlabs_tts_messages (Recv m) st = Ok st' \<and> only_io st st'"
  unfolding handle_elevenlabs_tts_messages_def recv.case
  by (rule steps_catch_all [OF steps_hybrid_tts_try]) (rule only_io_handler)

lemma frame_browser:
  "\<exists>st'. handle_browser_messages (Recv m) st = Ok st' \<and> only_io st st'"
  unfolding handle_browser_messages_def recv.case
  by (rule steps_catch_all [OF steps_browser_try]) (rule only_io_handler)

lemma frame_elevenlabs:
  "\<exists>st'. handle_elevenlabs_messages (Recv m) st = Ok st' \<and> only_io st st'"
  unfolding handle_elevenlabs_messages_def recv.case
  by (rule steps_catch_all [OF steps_elevenlabs_try]) (rule only_io_handler)

lemma frame_hybrid_loop: "\<exists>st'. hybrid_loop s (Recv m) st = Ok st' \<and> only_io st st'"
  by (cases s)
    (simp_all add: frame_hybrid_browser frame_hybrid_ai frame_hybrid_tts only_io_refl)

lemma frame_server_loop: "\<exists>st'. server_loop s (Recv m) st = Ok st' \<and> only_io st st'"
  by (cases s) (simp_all add: frame_browser frame_elevenlabs only_io_refl)

text \<open>
  A run of frames leaves every task running and the handler waiting: the event loop takes
  them one by one, and what has happened by then is plain I/O.
\<close>

lemma event_loop_frames:
  assumes loop: "\<And>s m st. \<exists>st'. loop s (Recv m) st = Ok st' \<and> only_io st st'"
    and pre: "list_all is_frame pre"
  shows "\<exists>st'. only_io st st' \<and>
           (\<forall>rest. event_loop loop wake ts (pre @ rest) st = event_loop loop wake ts rest st')"
  using pre
proof (induction pre arbitrary: st)
  case Nil
  show ?case by (auto intro: only_io_refl)
next
  case (Cons x pre)
  obtain s r where x: "x = (s, r)" by (cases x)
  from Cons.prems x obtain m where r: "r = Recv m" by (cases r) auto
  from Cons.prems have pre: "list_all is_frame pre" by simp
  have "\<exists>st1. only_io st st1 \<and>
          (\<forall>rest. event_loop loop wake ts (x # pre @ rest) st =
                  event_loop loop wake ts (pre @ rest) st1)"
  proof (cases "s \<in> set ts")
    case True
    with loop [of s m st] x r show ?thesis by auto
  next
    case False
    with x show ?thesis by (auto intro: only_io_refl)
  qed
  then obtain st1 where 1: "only_io st st1"
    and 2: "\<And>rest. event_loop loop wake ts (x # pre @ rest) st =
                    event_loop loop wake ts (pre @ rest) st1" by blast
  from Cons.IH [OF pre, of st1] obtain st' where 3: "only_io st1 st'"
    and 4: "\<And>rest. event_loop loop wake ts (pre @ rest) st1 = event_loop loop wake ts rest st'"
    by blast
  from 1 3 have "only_io st st'" by (rule only_io_trans)
  with 2 4 show ?case by auto
qed

lemma hybrid_gather_frames:
  "list_all is_frame pre \<Longrightarrow>
   \<exists>st'. only_io st st' \<and> (\<forall>rest. hybrid_gather (pre @ rest) st = hybrid_gather rest st')"
  unfolding hybrid_gather_def by (rule event_loop_frames [where loop = hybrid_loop, OF frame_hybrid_loop])

lemma gather_frames:
  "list_all is_frame pre \<Longrightarrow>
   \<exists>st'. only_io st st' \<and> (\<forall>rest. gather (pre @ rest) st = gather rest st')"
  unfolding gather_def by (rule event_loop_frames [where loop = server_loop, OF frame_server_loop])

subsection \<open>From accept to the pump\<close>

lemmas loop_defs = hybrid_handle_browser_messages_def handle_elevenlabs_ai_messages_def
  handle_elevenlabs_tts_messages_def handle_browser_messages_def handle_elevenlabs_messages_def
  hybrid_browser_try_def hybrid_ai_try_def hybrid_tts_try_def browser_try_def elevenlabs_try_def
  elevenlabs_translate_def hybrid_gather_def gather_def

lemma str_split_nonempty: "str_split c s \<noteq> []"
  by (induction s) (auto split: list.splits)

lemma str_split_root:
  "hd (str_split (CHR ''?'') path) = ''/'' \<Longrightarrow> \<exists>rest. str_split (CHR ''?'') path = ''/'' # rest"
  using str_split_nonempty [of "CHR ''?''" path] by (cases "str_split (CHR ''?'') path") auto

lemma hybrid_connection_started:
  assumes "hd (str_split (CHR ''?'') path) = ''/''" and "\<not> closed st Browser"
  shows "hybrid_handle_browser_connection cfg path Connected Connected ins st =
           try_finally
             (connection_except hybrid_loop
                (case hybrid_gather ins (hybrid_started cfg st) of
                   Raise (ConnectionClosed s) st8 \<Rightarrow>
                     Ok (logger INFO ''Connection closed, cleaning up'' [] st8)
                 | out \<Rightarrow> out))
             hybrid_cleanup"
proof -
  from assms(1) obtain rest where "str_split (CHR ''?'') path = ''/'' # rest"
    using str_split_root by blast
  with assms(2) show ?thesis
    by (simp add: hybrid_handle_browser_connection_def hybrid_connection_try_def
        connect_to_elevenlabs_ai_def connect_to_elevenlabs_tts_def hybrid_started_def
        emit_def logger_def ws_send_def and_then_def Let_def)
qed

lemma server_connection_started:
  assumes "hd (str_split (CHR ''?'') path) = ''/''" and "\<not> closed st Browser"
  shows "handle_browser_connection cfg path Connected ins st =
           try_finally
             (connection_except server_loop
                (case gather ins (server_started cfg st) of
                   Raise (ConnectionClosed s) st7 \<Rightarrow>
                     Ok (logger INFO ''Connection closed, cleaning up'' [] st7)
                 | out \<Rightarrow> out))
             (cleanup (Some AI))"
proof -
  from assms(1) obtain rest where "str_split (CHR ''?'') path = ''/'' # rest"
    using str_split_root by blast
  with assms(2) show ?thesis
    by (simp add: handle_browser_connection_def connection_try_def
        connect_to_elevenlabs_def server_started_def
        emit_def logger_def ws_send_def and_then_def Let_def)
qed

lemma hybrid_run_frames:
  assumes "hd (str_split (CHR ''?'') path) = ''/''" and "\<not> closed st Browser"
    and "list_all is_frame pre"
  shows "\<exists>st'. only_io (hybrid_started cfg st) st' \<and>
           (\<forall>rest. hybrid_handle_browser_connection cfg path Connected Connected (pre @ rest) st =
              try_finally
                (connection_except hybrid_loop
                   (case hybrid_gather rest st' of
                      Raise (ConnectionClosed s) st8 \<Rightarrow>
                        Ok (logger INFO ''Connection closed, cleaning up'' [] st8)
                    | out \<Rightarrow> out))
                hybrid_cleanup)"
  using hybrid_gather_frames [OF assms(3), of "hybrid_started cfg st"]
  by (auto simp: hybrid_connection_started [OF assms(1,2)])

lemma server_run_frames:
  assumes "hd (str_split (CHR ''?'') path) = ''/''" and "\<not> closed st Browser"
    and "list_all is_frame pre"
  shows "\<exists>st'. only_io (server_started cfg st) st' \<and>
           (\<forall>rest. handle_browser_connection cfg path Connected (pre @ rest) st =
              try_finally
                (connection_except server_loop
                   (case gather rest st' of
                      Raise (ConnectionClosed s) st7 \<Rightarrow>
                        Ok (logger INFO ''Connection closed, cleaning up'' [] st7)
                    | out \<Rightarrow> out))
                (cleanup (Some AI)))"
  using gather_frames [OF assms(3), of "server_started cfg st"]
  by (auto simp: server_connection_started [OF assms(1,2)])




lemma blocked_run: "try_finally (connection_except loop (Blocked st)) g = Blocked st"
  by (simp add: try_finally_def connection_except_def)

lemma hybrid_gather_Nil [simp]: "hybrid_gather [] st = Blocked st"
  by (simp add: hybrid_gather_def)

lemma gather_Nil [simp]: "gather [] st = Blocked st"
  by (simp add: gather_def)

lemma hybrid_gather_frame:
  "s \<in> {Browser, AI, TTS} \<Longrightarrow> hybrid_loop s (Recv m) st = Ok st1 \<Longrightarrow>
   hybrid_gather ((s, Recv m) # rest) st = hybrid_gather rest st1"
  by (auto simp: hybrid_gather_def)

lemma gather_frame:
  "s \<in> {Browser, AI} \<Longrightarrow> server_loop s (Recv m) st = Ok st1 \<Longrightarrow>
   gather ((s, Recv m) # rest) st = gather rest st1"
  by (auto simp: gather_def)

text \<open>
  A connection whose connects succeed, after a run of frames: the handler waits, and one or
  two frames more are one turn each of the loop that reads them.
\<close>

lemma hybrid_session_runs:
  assumes "hd (str_split (CHR ''?'') path) = ''/''" and "\<not> closed h Browser"
    and "list_all is_frame pre"
  shows "\<exists>h1. only_io (hybrid_started cfg h) h1
           \<and> hybrid_handle_browser_connection cfg path Connected Connected pre h = Blocked h1
           \<and> (\<forall>s m h2. s \<in> {Browser, AI, TTS} \<longrightarrow> hybrid_loop s (Recv m) h1 = Ok h2 \<longrightarrow>
                 hybrid_handle_browser_connection cfg path Connected Connected
                   (pre @ [(s, Recv m)]) h = Blocked h2
               \<and> (\<forall>s' m' h3. s' \<in> {Browser, AI, TTS} \<longrightarrow> hybrid_loop s' (Recv m') h2 = Ok h3 \<longrightarrow>
                     hybrid_handle_browser_connection cfg path Connected Connected
                       (pre @ [(s, Recv m), (s', Recv m')]) h = Blocked h3))"
proof -
  from hybrid_run_frames [OF assms, of cfg]
  obtain h1 where io: "only_io (hybrid_started cfg h) h1"
    and run: "\<And>rest. hybrid_handle_browser_connection cfg path Connected Connected (pre @ rest) h =
              try_finally
                (connection_except hybrid_loop
                   (case hybrid_gather rest h1 of
                      Raise (ConnectionClosed s) st8 \<Rightarrow>
                        Ok (logger INFO ''Connection closed, cleaning up'' [] st8)
                    | out \<Rightarrow> out))
                hybrid_cleanup"
    by blast
  have 0: "hybrid_handle_browser_connection cfg path Connected Connected pre h = Blocked h1"
    using run [of "[]"] by (simp add: blocked_run)
  have 1: "hybrid_handle_browser_connection cfg path Connected Connected
             (pre @ [(s, Recv m)]) h = Blocked h2"
    if "s \<in> {Browser, AI, TTS}" "hybrid_loop s (Recv m) h1 = Ok h2" for s m h2
    by (simp only: run hybrid_gather_frame [OF that] hybrid_gather_Nil outcome.case blocked_run)
  have 2: "hybrid_handle_browser_connection cfg path Connected Connected
             (pre @ [(s, Recv m), (s', Recv m')]) h = Blocked h3"
    if "s \<in> {Browser, AI, TTS}" "hybrid_loop s (Recv m) h1 = Ok h2"
      "s' \<in> {Browser, AI, TTS}" "hybrid_loop s' (Recv m') h2 = Ok h3" for s m h2 s' m' h3
    by (simp only: run hybrid_gather_frame [OF that(1,2)] hybrid_gather_frame [OF that(3,4)]
        hybrid_gather_Nil outcome.case blocked_run)
  show ?thesis
  proof (intro exI [of _ h1] conjI allI impI)
    show "only_io (hybrid_started cfg h) h1" by (rule io)
    show "hybrid_handle_browser_connection cfg path Connected Connected pre h = Blocked h1"
      by (rule 0)
  next
    fix s m h2
    assume "s \<in> {Browser, AI, TTS}" "hybrid_loop s (Recv m) h1 = Ok h2"
    then show "hybrid_handle_browser_connection cfg path Connected Connected
                 (pre @ [(s, Recv m)]) h = Blocked h2" by (rule 1)
  next
    fix s m h2 s' m' h3
    assume "s \<in> {Browser, AI, TTS}" "hybrid_loop s (Recv m) h1 = Ok h2"
      "s' \<in> {Browser, AI, TTS}" "hybrid_loop s' (Recv m') h2 = Ok h3"
    then show "hybrid_handle_browser_connection cfg path Connected Connected
                 (pre @ [(s, Recv m), (s', Recv m')]) h = Blocked h3" by (rule 2)
  qed
qed

lemma server_session_runs:
  assumes "hd (str_split (CHR ''?'') path) = ''/''" and "\<not> closed s0 Browser"
    and "list_all is_frame pre"
  shows "\<exists>s1. only_io (server_started cfg s0) s1
           \<and> handle_browser_connection cfg path Connected pre s0 = Blocked s1
           \<and> (\<forall>s m s2. s \<in> {Browser, AI} \<longrightarrow> server_loop s (Recv m) s1 = Ok s2 \<longrightarrow>
                 handle_browser_connection cfg path Connected (pre @ [(s, Recv m)]) s0 = Blocked s2
               \<and> (\<forall>s' m' s3. s' \<in> {Browser, AI} \<longrightarrow> server_loop s' (Recv m') s2 = Ok s3 \<longrightarrow>
                     handle_browser_connection cfg path Connected
                       (pre @ [(s, Recv m), (s', Recv m')]) s0 = Blocked s3))"
proof -
  from server_run_frames [OF assms, of cfg]
  obtain s1 where io: "only_io (server_started cfg s0) s1"
    and run: "\<And>rest. handle_browser_connection cfg path Connected (pre @ rest) s0 =
              try_finally
                (connection_except server_loop
                   (case gather rest s1 of
                      Raise (ConnectionClosed s) st7 \<Rightarrow>
                        Ok (logger INFO ''Connection closed, cleaning up'' [] st7)
                    | out \<Rightarrow> out))
                (cleanup (Some AI))"
    by blast
  have 0: "handle_browser_connection cfg path Connected pre s0 = Blocked s1"
    using run [of "[]"] by (simp add: blocked_run)
  have 1: "handle_browser_connection cfg path Connected (pre @ [(s, Recv m)]) s0 = Blocked s2"
    if "s \<in> {Browser, AI}" "server_loop s (Recv m) s1 = Ok s2" for s m s2
    by (simp only: run gather_frame [OF that] gather_Nil outcome.case blocked_run)
  have 2: "handle_browser_connection cfg path Connected
             (pre @ [(s, Recv m), (s', Recv m')]) s0 = Blocked s3"
    if "s \<in> {Browser, AI}" "server_loop s (Recv m) s1 = Ok s2"
      "s' \<in> {Browser, AI}" "server_loop s' (Recv m') s2 = Ok s3" for s m s2 s' m' s3
    by (simp only: run gather_frame [OF that(1,2)] gather_frame [OF that(3,4)]
        gather_Nil outcome.case blocked_run)
  show ?thesis
  proof (intro exI [of _ s1] conjI allI impI)
    show "only_io (server_started cfg s0) s1" by (rule io)
    show "handle_browser_connection cfg path Connected pre s0 = Blocked s1" by (rule 0)
  next
    fix s m s2
    assume "s \<in> {Browser, AI}" "server_loop s (Recv m) s1 = Ok s2"
    then show "handle_browser_connection cfg path Connected (pre @ [(s, Recv m)]) s0 = Blocked s2"
      by (rule 1)
  next
    fix s m s2 s' m' s3
    assume "s \<in> {Browser, AI}" "server_loop s (Recv m) s1 = Ok s2"
      "s' \<in> {Browser, AI}" "server_loop s' (Recv m') s2 = Ok s3"
    then show "handle_browser_connection cfg path Connected
                 (pre @ [(s, Recv m), (s', Recv m')]) s0 = Blocked s3" by (rule 2)
  qed
qed

lemma hybrid_started_fields [simp]:
  "closed (hybrid_started cfg st) = (closed st)(AI := False, TTS := False)"
  "connections (hybrid_started cfg st) = (connections st)(Browser \<mapsto> [(''ai'', AI), (''tts'', TTS)])"
  "session_created (hybrid_started cfg st) = hybrid_session_created"
  "tasks (hybrid_started cfg st) = []"
  "pending (hybrid_started cfg st) = []"
  by (simp_all add: hybrid_started_def)

lemma server_started_fields [simp]:
  "closed (server_started cfg st) = (closed st)(AI := False)"
  "connections (server_started cfg st) = (connections st)(Browser \<mapsto> AI)"
  "session_created (server_started cfg st) = server_session_created"
  "tasks (server_started cfg st) = []"
  "pending (server_started cfg st) = []"
  by (simp_all add: server_started_def)

lemma started_upstream_open:
  "only_io (hybrid_started cfg h) h1 \<Longrightarrow> \<not> closed h1 AI \<and> \<not> closed h1 TTS"
  "only_io (server_started cfg s) s1 \<Longrightarrow> \<not> closed s1 AI"
  by (simp_all add: only_io_def)

subsection \<open>Closing a socket that a loop reads\<close>

lemma only_io_eq:
  "only_io st st' \<Longrightarrow> \<exists>io. list_all is_io io \<and> st' = st\<lparr>trace := trace st @ io\<rparr>"
  unfolding only_io_def by (cases st, cases st') auto

lemma hybrid_loop_closed:
  "hybrid_loop Browser (RecvClosed c r) st =
     Raise (ConnectionClosed Browser)
       (st\<lparr>closed := (closed st)(Browser := True),
           trace := trace st @ [closed_line ''Browser'' c r]\<rparr>)"
  "hybrid_loop AI (RecvClosed c r) st =
     Raise (ConnectionClosed AI)
       (st\<lparr>closed := (closed st)(AI := True),
           trace := trace st @ [closed_line ''ElevenLabs AI'' c r]\<rparr>)"
  "hybrid_loop TTS (RecvClosed c r) st =
     Raise (ConnectionClosed TTS)
       (st\<lparr>closed := (closed st)(TTS := True),
           trace := trace st @ [closed_line ''ElevenLabs TTS'' c r]\<rparr>)"
  by (simp_all add: loop_defs logger_def emit_def closed_line_def)

lemma server_loop_closed:
  "server_loop Browser (RecvClosed c r) st =
     Raise (ConnectionClosed Browser)
       (st\<lparr>closed := (closed st)(Browser := True),
           trace := trace st @ [closed_line ''Browser'' c r]\<rparr>)"
  "server_loop AI (RecvClosed c r) st =
     Raise (ConnectionClosed AI)
       (st\<lparr>closed := (closed st)(AI := True),
           trace := trace st @ [closed_line ''ElevenLabs'' c r]\<rparr>)"
  by (simp_all add: loop_defs logger_def emit_def closed_line_def)

text \<open>
  The event loop up to the end of the task that reads \<open>s\<close>, when frames only come before the
  close of \<open>s\<close>: the frames are plain I/O, then the loop of \<open>s\<close> logs the close and ends.
\<close>

lemma event_loop_until_closed:
  assumes frames: "\<And>s m st. \<exists>st'. loop s (Recv m) st = Ok st' \<and> only_io st st'"
    and closes: "\<And>st. loop s (RecvClosed c r) st =
                   Raise (ConnectionClosed s)
                     (st\<lparr>closed := (closed st)(s := True),
                         trace := trace st @ [closed_line who c r]\<rparr>)"
    and "s \<in> set ts" and "wake s" and "list_all is_frame f"
  shows "\<exists>io. list_all is_io io \<and>
           event_loop loop wake ts (f @ (s, RecvClosed c r) # rest) st =
             Raise (ConnectionClosed s)
               (st\<lparr>closed := (closed st)(s := True),
                   trace := trace st @ io @ [closed_line who c r],
                   tasks := removeAll s ts, pending := rest\<rparr>)"
proof -
  from event_loop_frames [where loop = loop, OF frames assms(5), of st wake ts]
  obtain st1 where io: "only_io st st1"
    and run: "\<And>rest. event_loop loop wake ts (f @ rest) st = event_loop loop wake ts rest st1"
    by blast
  from only_io_eq [OF io] obtain io where 1: "list_all is_io io"
    and st1: "st1 = st\<lparr>trace := trace st @ io\<rparr>" by blast
  have "event_loop loop wake ts (f @ (s, RecvClosed c r) # rest) st =
          Raise (ConnectionClosed s)
            (st\<lparr>closed := (closed st)(s := True),
                trace := trace st @ io @ [closed_line who c r],
                tasks := removeAll s ts, pending := rest\<rparr>)"
    using assms(3,4) by (simp add: run closes st1)
  with 1 show ?thesis by blast
qed

lemma await_close_completes:
  assumes frames: "\<And>s m st. \<exists>st'. loop s (Recv m) st = Ok st' \<and> only_io st st'"
    and closes: "\<And>st. loop s (RecvClosed c r) st =
                   Raise (ConnectionClosed s)
                     (st\<lparr>closed := (closed st)(s := True),
                         trace := trace st @ [closed_line who c r]\<rparr>)"
    and "s \<in> set (tasks st)" and "pending st = f @ (s, RecvClosed c r) # rest"
    and "list_all is_frame f"
  shows "\<exists>io. list_all is_io io \<and>
           await_close loop s code reason st =
             Ok (st\<lparr>closed := (closed st)(s := True),
                   trace := trace st @ [Close s code reason] @ io @ [closed_line who c r],
                   tasks := removeAll s (tasks st), pending := rest\<rparr>)"
proof -
  let ?st1 = "ws_close s code reason st"
  from event_loop_until_closed [where loop = loop and wake = "\<lambda>s'. s' = s" and ts = "tasks st"
      and st = ?st1 and rest = rest, OF frames closes assms(3) refl assms(5)]
  obtain io where 1: "list_all is_io io"
    and 2: "event_loop loop (\<lambda>s'. s' = s) (tasks st) (f @ (s, RecvClosed c r) # rest) ?st1 =
             Raise (ConnectionClosed s)
               (?st1\<lparr>closed := (closed ?st1)(s := True),
                   trace := trace ?st1 @ io @ [closed_line who c r],
                   tasks := removeAll s (tasks st), pending := rest\<rparr>)"
    by blast
  have "await_close loop s code reason st =
             Ok (st\<lparr>closed := (closed st)(s := True),
                   trace := trace st @ [Close s code reason] @ io @ [closed_line who c r],
                   tasks := removeAll s (tasks st), pending := rest\<rparr>)"
    using assms(3,4) 2 by (simp add: await_close_def ws_close_def emit_def Let_def)
  with 1 show ?thesis by blast
qed

section \<open>The claims\<close>

text \<open>
  Claim C9. When the request path up to its first \<^verbatim>\<open>?\<close> is not \<^verbatim>\<open>/\<close>, either handler logs the
  path, closes the browser socket with code 1008 and returns: these two actions are all it
  does, so no \<^verbatim>\<open>connect\<close> is attempted, whatever the upstream services would have answered.
\<close>

theorem invalid_path_closed_without_connect:
  assumes "hd (str_split (CHR ''?'') path) \<noteq> ''/''"
  shows "hybrid_handle_browser_connection cfg path ai_res tts_res ins h =
           Ok (h\<lparr>closed := (closed h)(Browser := True),
                 trace := trace h @ [Log ERROR ''Invalid path: {}'' [Lit path],
                                     Close Browser 1008 (Lit ''Invalid path'')]\<rparr>)
       \<and> handle_browser_connection cfg path res ins s =
           Ok (s\<lparr>closed := (closed s)(Browser := True),
                 trace := trace s @ [Log ERROR ''Invalid path: {}'' [Lit path],
                                     Close Browser 1008 (Lit ''Invalid path'')]\<rparr>)"
proof -
  obtain base_path rest where split: "str_split (CHR ''?'') path = base_path # rest"
    using str_split_nonempty [of "CHR ''?''" path] by (cases "str_split (CHR ''?'') path") auto
  with assms have "base_path \<noteq> ''/''" by simp
  with split show ?thesis
    by (simp add: hybrid_handle_browser_connection_def handle_browser_connection_def relay_defs)
qed

theorem invalid_path_closed_without_connect_witness:
  "hd (str_split (CHR ''?'') ''/ws?model=x'') \<noteq> ''/''
   \<and> hybrid_handle_browser_connection example_config ''/ws?model=x'' Connected Connected
        [(Browser, RecvClosed 1000 ''bye'')] accepted =
       Ok (accepted\<lparr>closed := (\<lambda>s. s = Browser),
             trace := [Log ERROR ''Invalid path: {}'' [Lit ''/ws?model=x''],
                       Close Browser 1008 (Lit ''Invalid path'')]\<rparr>)
   \<and> handle_browser_connection example_config ''/ws?model=x'' Connected
        [(Browser, RecvClosed 1000 ''bye'')] accepted =
       Ok (accepted\<lparr>closed := (\<lambda>s. s = Browser),
             trace := [Log ERROR ''Invalid path: {}'' [Lit ''/ws?model=x''],
                       Close Browser 1008 (Lit ''Invalid path'')]\<rparr>)"
  using invalid_path_closed_without_connect
    [of "''/ws?model=x''" example_config Connected Connected
        "[(Browser, RecvClosed 1000 ''bye'')]" accepted Connected accepted]
  by (auto simp: accepted_def fun_eq_iff)





text \<open>
  Claim C1, as the code has it. The claim that every \<^verbatim>\<open>input_audio_buffer.append\<close> has its
  payload sent to the AI socket fails once that socket is closed while the browser loop still
  runs. Here the AI service closes its socket; the handler starts its cleanup and waits for
  the text-to-speech socket to close; the browser loop, which \<^verbatim>\<open>asyncio.gather\<close> has not
  cancelled, takes an append event: \<^verbatim>\<open>send\<close> raises, the loop's \<^verbatim>\<open>except Exception\<close> logs it,
  and nothing is sent to the AI socket.
\<close>

theorem audio_append_lost_when_ai_closed:
  \<open>\<exists>st. hybrid_handle_browser_connection example_config ''/'' Connected Connected
         [(AI, RecvClosed 1006 ''''),
          (Browser, Recv (Message ''{"type":"input_audio_buffer.append","audio":"QUJD"}''
             (Some (JDict [(''type'', JStr ''input_audio_buffer.append''),
                           (''audio'', JStr ''QUJD'')]))))]
         accepted = Blocked st
      \<and> trace st = trace (hybrid_started example_config accepted) @
           [Log INFO ''ElevenLabs AI connection closed: code={}, reason={}''
              [Str (JInt 1006), Lit ''''],
            Log INFO ''Connection closed, cleaning up'' [],
            Close TTS 1000 (Lit ''Normal closure''),
            Log INFO ''Forwarding audio input to ElevenLabs AI'' [],
            Log ERROR ''Error processing browser message: {}'' [StrExn (ConnectionClosed AI)]]\<close>
  by (simp add: hybrid_connection_started loop_defs relay_defs connection_except_def
      hybrid_cleanup_def await_close_def accepted_def Let_def)

text \<open>
  Claim C1, amended. An \<^verbatim>\<open>input_audio_buffer.append\<close> event from the browser whose \<^verbatim>\<open>audio\<close>
  field holds \<open>P\<close>. One turn of the browser loop of either relay logs and, if the AI socket
  is open, sends it the one message \<^verbatim>\<open>{"user_audio_chunk": P}\<close> with \<open>P\<close> as it came; if the AI
  socket is closed the failed send is logged instead and nothing is sent. In a connection that
  has come through the handshake and any frames \<open>pre\<close> the AI socket is open: the event adds
  the log line and that one message to what the handler had done, and the turn for whatever
  the browser sends next starts only from there.
\<close>

theorem audio_append_forwarded_once:
  assumes "loads m = Some (JDict ev)"
    and "map_of ev ''type'' = Some (JStr ''input_audio_buffer.append'')"
    and "map_of ev ''audio'' = Some P"
    and "hd (str_split (CHR ''?'') path) = ''/''"
    and "list_all is_frame pre"
    and "\<not> closed h Browser" and "\<not> closed s Browser"
  shows
    "hybrid_handle_browser_messages (Recv m) hs =
       Ok (hs\<lparr>trace := trace hs @
             [Log INFO ''Forwarding audio input to ElevenLabs AI'' [],
              if closed hs AI
              then Log ERROR ''Error processing browser message: {}'' [StrExn (ConnectionClosed AI)]
              else Sent AI (JDict [(''user_audio_chunk'', P)])]\<rparr>)
   \<and> handle_browser_messages (Recv m) ss =
       Ok (ss\<lparr>trace := trace ss @
             [Log INFO ''Forwarding audio input to ElevenLabs'' [],
              if closed ss AI
              then Log ERROR ''Error processing browser message: {}'' [StrExn (ConnectionClosed AI)]
              else Sent AI (JDict [(''user_audio_chunk'', P)])]\<rparr>)
   \<and> (\<exists>h1.
         hybrid_handle_browser_connection cfg path Connected Connected pre h = Blocked h1
       \<and> hybrid_handle_browser_connection cfg path Connected Connected
           (pre @ [(Browser, Recv m)]) h =
         Blocked (h1\<lparr>trace := trace h1 @
                   [Log INFO ''Forwarding audio input to ElevenLabs AI'' [],
                    Sent AI (JDict [(''user_audio_chunk'', P)])]\<rparr>)
       \<and> (\<forall>m'. \<exists>h3.
             hybrid_handle_browser_messages (Recv m')
               (h1\<lparr>trace := trace h1 @
                   [Log INFO ''Forwarding audio input to ElevenLabs AI'' [],
                    Sent AI (JDict [(''user_audio_chunk'', P)])]\<rparr>) = Ok h3
           \<and> hybrid_handle_browser_connection cfg path Connected Connected
               (pre @ [(Browser, Recv m), (Browser, Recv m')]) h = Blocked h3))
   \<and> (\<exists>s1.
         handle_browser_connection cfg path Connected pre s = Blocked s1
       \<and> handle_browser_connection cfg path Connected (pre @ [(Browser, Recv m)]) s =
         Blocked (s1\<lparr>trace := trace s1 @
                   [Log INFO ''Forwarding audio input to ElevenLabs'' [],
                    Sent AI (JDict [(''user_audio_chunk'', P)])]\<rparr>)
       \<and> (\<forall>m'. \<exists>s3.
             handle_browser_messages (Recv m')
               (s1\<lparr>trace := trace s1 @
                   [Log INFO ''Forwarding audio input to ElevenLabs'' [],
                    Sent AI (JDict [(''user_audio_chunk'', P)])]\<rparr>) = Ok s3
           \<and> handle_browser_connection cfg path Connected
               (pre @ [(Browser, Recv m), (Browser, Recv m')]) s = Blocked s3))"
proof (intro conjI)
  show "hybrid_handle_browser_messages (Recv m) hs =
       Ok (hs\<lparr>trace := trace hs @
             [Log INFO ''Forwarding audio input to ElevenLabs AI'' [],
              if closed hs AI
              then Log ERROR ''Error processing browser message: {}'' [StrExn (ConnectionClosed AI)]
              else Sent AI (JDict [(''user_audio_chunk'', P)])]\<rparr>)"
    using assms(1-3) by (simp add: loop_defs relay_defs)
  show "handle_browser_messages (Recv m) ss =
       Ok (ss\<lparr>trace := trace ss @
             [Log INFO ''Forwarding audio input to ElevenLabs'' [],
              if closed ss AI
              then Log ERROR ''Error processing browser message: {}'' [StrExn (ConnectionClosed AI)]
              else Sent AI (JDict [(''user_audio_chunk'', P)])]\<rparr>)"
    using assms(1-3) by (simp add: loop_defs relay_defs)
next
  from hybrid_session_runs [OF assms(4) assms(6) assms(5), of cfg]
  obtain h1 where io: "only_io (hybrid_started cfg h) h1"
    and h0: "hybrid_handle_browser_connection cfg path Connected Connected pre h = Blocked h1"
    and h12: "\<And>s m h2. s \<in> {Browser, AI, TTS} \<Longrightarrow> hybrid_loop s (Recv m) h1 = Ok h2 \<Longrightarrow>
                 hybrid_handle_browser_connection cfg path Connected Connected
                   (pre @ [(s, Recv m)]) h = Blocked h2
               \<and> (\<forall>s' m' h3. s' \<in> {Browser, AI, TTS} \<longrightarrow> hybrid_loop s' (Recv m') h2 = Ok h3 \<longrightarrow>
                     hybrid_handle_browser_connection cfg path Connected Connected
                       (pre @ [(s, Recv m), (s', Recv m')]) h = Blocked h3)"
    by blast
  let ?h2 = "h1\<lparr>trace := trace h1 @
                   [Log INFO ''Forwarding audio input to ElevenLabs AI'' [],
                    Sent AI (JDict [(''user_audio_chunk'', P)])]\<rparr>"
  have turn: "hybrid_loop Browser (Recv m) h1 = Ok ?h2"
    using assms(1-3) started_upstream_open(1) [OF io] by (simp add: loop_defs relay_defs)
  have nxt: "\<exists>h3. hybrid_handle_browser_messages (Recv m') ?h2 = Ok h3
           \<and> hybrid_handle_browser_connection cfg path Connected Connected
               (pre @ [(Browser, Recv m), (Browser, Recv m')]) h = Blocked h3" for m'
  proof -
    from frame_hybrid_browser [of m' ?h2]
    obtain h3 where "hybrid_handle_browser_messages (Recv m') ?h2 = Ok h3" by blast
    with h12 [OF _ turn] show ?thesis by simp
  qed
  show "\<exists>h1.
         hybrid_handle_browser_connection cfg path Connected Connected pre h = Blocked h1
       \<and> hybrid_handle_browser_connection cfg path Connected Connected
           (pre @ [(Browser, Recv m)]) h =
         Blocked (h1\<lparr>trace := trace h1 @
                   [Log INFO ''Forwarding audio input to ElevenLabs AI'' [],
                    Sent AI (JDict [(''user_audio_chunk'', P)])]\<rparr>)
       \<and> (\<forall>m'. \<exists>h3.
             hybrid_handle_browser_messages (Recv m')
               (h1\<lparr>trace := trace h1 @
                   [Log INFO ''Forwarding audio input to ElevenLabs AI'' [],
                    Sent AI (JDict [(''user_audio_chunk'', P)])]\<rparr>) = Ok h3
           \<and> hybrid_handle_browser_connection cfg path Connected Connected
               (pre @ [(Browser, Recv m), (Browser, Recv m')]) h = Blocked h3)"
  proof (rule exI [of _ h1], intro conjI allI)
    show "hybrid_handle_browser_connection cfg path Connected Connected pre h = Blocked h1"
      by (rule h0)
    show "hybrid_handle_browser_connection cfg path Connected Connected
           (pre @ [(Browser, Recv m)]) h = Blocked ?h2"
      using h12 [OF _ turn] by simp
    show "\<exists>h3. hybrid_handle_browser_messages (Recv m') ?h2 = Ok h3
           \<and> hybrid_handle_browser_connection cfg path Connected Connected
               (pre @ [(Browser, Recv m), (Browser, Recv m')]) h = Blocked h3" for m'
      by (rule nxt)
  qed
next
  from server_session_runs [OF assms(4) assms(7) assms(5), of cfg]
  obtain s1 where io: "only_io (server_started cfg s) s1"
    and s0: "handle_browser_connection cfg path Connected pre s = Blocked s1"
    and s12: "\<And>a m s2. a \<in> {Browser, AI} \<Longrightarrow> server_loop a (Recv m) s1 = Ok s2 \<Longrightarrow>
                 handle_browser_connection cfg path Connected (pre @ [(a, Recv m)]) s = Blocked s2
               \<and> (\<forall>s' m' s3. s' \<in> {Browser, AI} \<longrightarrow> server_loop s' (Recv m') s2 = Ok s3 \<longrightarrow>
                     handle_browser_connection cfg path Connected
                       (pre @ [(a, Recv m), (s', Recv m')]) s = Blocked s3)"
    by blast
  let ?s2 = "s1\<lparr>trace := trace s1 @
                   [Log INFO ''Forwarding audio input to ElevenLabs'' [],
                    Sent AI (JDict [(''user_audio_chunk'', P)])]\<rparr>"
  have turn: "server_loop Browser (Recv m) s1 = Ok ?s2"
    using assms(1-3) started_upstream_open(2) [OF io] by (simp add: loop_defs relay_defs)
  have nxt: "\<exists>s3. handle_browser_messages (Recv m') ?s2 = Ok s3
           \<and> handle_browser_connection cfg path Connected
               (pre @ [(Browser, Recv m), (Browser, Recv m')]) s = Blocked s3" for m'
  proof -
    from frame_browser [of m' ?s2]
    obtain s3 where "handle_browser_messages (Recv m') ?s2 = Ok s3" by blast
    with s12 [OF _ turn] show ?thesis by simp
  qed
  show "\<exists>s1.
         handle_browser_connection cfg path Connected pre s = Blocked s1
       \<and> handle_browser_connection cfg path Connected (pre @ [(Browser, Recv m)]) s =
         Blocked (s1\<lparr>trace := trace s1 @
                   [Log INFO ''Forwarding audio input to ElevenLabs'' [],
                    Sent AI (JDict [(''user_audio_chunk'', P)])]\<rparr>)
       \<and> (\<forall>m'. \<exists>s3.
             handle_browser_messages (Recv m')
               (s1\<lparr>trace := trace s1 @
                   [Log INFO ''Forwarding audio input to ElevenLabs'' [],
                    Sent AI (JDict [(''user_audio_chunk'', P)])]\<rparr>) = Ok s3
           \<and> handle_browser_connection cfg path Connected
               (pre @ [(Browser, Recv m), (Browser, Recv m')]) s = Blocked s3)"
  proof (rule exI [of _ s1], intro conjI allI)
    show "handle_browser_connection cfg path Connected pre s = Blocked s1" by (rule s0)
    show "handle_browser_connection cfg path Connected (pre @ [(Browser, Recv m)]) s = Blocked ?s2"
      using s12 [OF _ turn] by simp
    show "\<exists>s3. handle_browser_messages (Recv m') ?s2 = Ok s3
           \<and> handle_browser_connection cfg path Connected
               (pre @ [(Browser, Recv m), (Browser, Recv m')]) s = Blocked s3" for m'
      by (rule nxt)
  qed
qed

text \<open>
  The same at a concrete input: the payload \<^verbatim>\<open>QUJD\<close>, in a turn with the AI socket open, in a
  turn with it closed, and as the first frame of a connection to either relay.
\<close>

theorem audio_append_forwarded_once_witness:
  \<open>loads (Message ''{"type":"input_audio_buffer.append","audio":"QUJD"}''
      (Some (JDict [(''type'', JStr ''input_audio_buffer.append''), (''audio'', JStr ''QUJD'')])))
     = Some (JDict [(''type'', JStr ''input_audio_buffer.append''), (''audio'', JStr ''QUJD'')])
   \<and> map_of [(''type'', JStr ''input_audio_buffer.append''), (''audio'', JStr ''QUJD'')] ''type''
     = Some (JStr ''input_audio_buffer.append'')
   \<and> map_of [(''type'', JStr ''input_audio_buffer.append''), (''audio'', JStr ''QUJD'')] ''audio''
     = Some (JStr ''QUJD'')
   \<and> hd (str_split (CHR ''?'') ''/'') = ''/''
   \<and> list_all is_frame []
   \<and> \<not> closed (accepted :: hybrid) Browser \<and> \<not> closed (accepted :: server) Browser
   \<and> hybrid_handle_browser_messages
        (Recv (Message ''{"type":"input_audio_buffer.append","audio":"QUJD"}''
           (Some (JDict [(''type'', JStr ''input_audio_buffer.append''),
                         (''audio'', JStr ''QUJD'')])))) accepted =
       Ok (accepted\<lparr>trace :=
             [Log INFO ''Forwarding audio input to ElevenLabs AI'' [],
              Sent AI (JDict [(''user_audio_chunk'', JStr ''QUJD'')])]\<rparr>)
   \<and> handle_browser_messages
        (Recv (Message ''{"type":"input_audio_buffer.append","audio":"QUJD"}''
           (Some (JDict [(''type'', JStr ''input_audio_buffer.append''),
                         (''audio'', JStr ''QUJD'')]))))
        (accepted\<lparr>closed := (\<lambda>s. s = AI)\<rparr>) =
       Ok (accepted\<lparr>closed := (\<lambda>s. s = AI), trace :=
             [Log INFO ''Forwarding audio input to ElevenLabs'' [],
              Log ERROR ''Error processing browser message: {}''
                [StrExn (ConnectionClosed AI)]]\<rparr>)
   \<and> hybrid_handle_browser_connection example_config ''/'' Connected Connected
        ([] @ [(Browser, Recv (Message ''{"type":"input_audio_buffer.append","audio":"QUJD"}''
                  (Some (JDict [(''type'', JStr ''input_audio_buffer.append''),
                                (''audio'', JStr ''QUJD'')]))))]) accepted =
       Blocked ((hybrid_started example_config accepted)
         \<lparr>trace := trace (hybrid_started example_config accepted) @
            [Log INFO ''Forwarding audio input to ElevenLabs AI'' [],
             Sent AI (JDict [(''user_audio_chunk'', JStr ''QUJD'')])]\<rparr>)
   \<and> handle_browser_connection example_config ''/'' Connected
        ([] @ [(Browser, Recv (Message ''{"type":"input_audio_buffer.append","audio":"QUJD"}''
                  (Some (JDict [(''type'', JStr ''input_audio_buffer.append''),
                                (''audio'', JStr ''QUJD'')]))))]) accepted =
       Blocked ((server_started example_config accepted)
         \<lparr>trace := trace (server_started example_config accepted) @
            [Log INFO ''Forwarding audio input to ElevenLabs'' [],
             Sent AI (JDict [(''user_audio_chunk'', JStr ''QUJD'')])]\<rparr>)\<close>
  using audio_append_forwarded_once
    [of \<open>Message ''{"type":"input_audio_buffer.append","audio":"QUJD"}''
          (Some (JDict [(''type'', JStr ''input_audio_buffer.append''), (''audio'', JStr ''QUJD'')]))\<close>
        "[(''type'', JStr ''input_audio_buffer.append''), (''audio'', JStr ''QUJD'')]"
        "JStr ''QUJD''" "''/''" "[]" accepted accepted accepted
        "accepted\<lparr>closed := (\<lambda>s. s = AI)\<rparr>" example_config]
  by (simp add: hybrid_connection_started server_connection_started loop_defs relay_defs
      connection_except_def accepted_def)













text \<open>
  Claim C4. A connection on path \<^verbatim>\<open>/\<close>, with the browser socket open and, as a socket just
  accepted, not in the registry, whose upstream connect fails with message \<open>msg\<close>. In either relay, when the connect to the AI service fails the
  handler logs the failure twice, closes the browser socket with code 1011 and returns; no
  \<^verbatim>\<open>session.created\<close> has been sent, no registry entry made and no loop started, whatever the
  inputs. In the three-way relay, when the AI connect succeeds and the text-to-speech connect
  fails, the handler does the same and returns with the AI socket still open: the registry
  entry is written only after both connects, the \<^verbatim>\<open>finally\<close> clause closes only the sockets
  it finds there, and so nothing closes the AI socket that was opened.
\<close>

theorem upstream_connect_failure:
  assumes "hd (str_split (CHR ''?'') path) = ''/''"
    and "\<not> closed h Browser" and "\<not> closed s Browser"
    and "connections h Browser = None" and "connections s Browser = None"
  shows
    "hybrid_handle_browser_connection cfg path (Refused msg) tts_res ins h =
       Ok (h\<lparr>closed := (closed h)(Browser := True),
             trace := trace h @
               [Log INFO ''Browser connected from {}'' [Addr Browser],
                Connect AI (''wss://api.elevenlabs.io/v1/convai/conversation?agent_id=''
                              @ ELEVENLABS_AGENT_ID cfg)
                  [(''xi-api-key'', ELEVENLABS_API_KEY cfg)],
                Log ERROR ''Failed to connect to ElevenLabs AI: {}'' [StrExn (ConnectError msg)],
                Log ERROR ''Error handling connection: {}'' [StrExn (ConnectError msg)],
                Close Browser 1011 (StrExn (ConnectError msg))],
             tasks := [], pending := []\<rparr>)
   \<and> hybrid_handle_browser_connection cfg path Connected (Refused msg) ins h =
       Ok (h\<lparr>closed := (closed h)(AI := False, Browser := True),
             trace := trace h @
               [Log INFO ''Browser connected from {}'' [Addr Browser],
                Connect AI (''wss://api.elevenlabs.io/v1/convai/conversation?agent_id=''
                              @ ELEVENLABS_AGENT_ID cfg)
                  [(''xi-api-key'', ELEVENLABS_API_KEY cfg)],
                Log INFO ''Successfully connected to ElevenLabs Conversational AI'' [],
                Connect TTS (''wss://api.elevenlabs.io/v1/text-to-speech/''
                               @ ELEVENLABS_VOICE_ID cfg
                               @ ''/stream-input?model_id=eleven_flash_v2_5'') [],
                Log ERROR ''Failed to connect to ElevenLabs TTS: {}'' [StrExn (ConnectError msg)],
                Log ERROR ''Error handling connection: {}'' [StrExn (ConnectError msg)],
                Close Browser 1011 (StrExn (ConnectError msg))],
             tasks := [], pending := []\<rparr>)
   \<and> \<not> closed (state_of
         (hybrid_handle_browser_connection cfg path Connected (Refused msg) ins h)) AI
   \<and> handle_browser_connection cfg path (Refused msg) ins s =
       Ok (s\<lparr>closed := (closed s)(Browser := True),
             trace := trace s @
               [Log INFO ''Browser connected from {}'' [Addr Browser],
                Connect AI (''wss://api.elevenlabs.io/v1/convai/conversation?agent_id=''
                              @ ELEVENLABS_AGENT_ID cfg)
                  [(''xi-api-key'', ELEVENLABS_API_KEY cfg)],
                Log ERROR ''Failed to connect to ElevenLabs: {}'' [StrExn (ConnectError msg)],
                Log ERROR ''Error handling connection: {}'' [StrExn (ConnectError msg)],
                Close Browser 1011 (StrExn (ConnectError msg))],
             tasks := [], pending := []\<rparr>)"
proof -
  obtain rest where split: "str_split (CHR ''?'') path = ''/'' # rest"
    using str_split_root [OF assms(1)] by blast
  have a: "hybrid_handle_browser_connection cfg path (Refused msg) tts_res ins h =
       Ok (h\<lparr>closed := (closed h)(Browser := True),
             trace := trace h @
               [Log INFO ''Browser connected from {}'' [Addr Browser],
                Connect AI (''wss://api.elevenlabs.io/v1/convai/conversation?agent_id=''
                              @ ELEVENLABS_AGENT_ID cfg)
                  [(''xi-api-key'', ELEVENLABS_API_KEY cfg)],
                Log ERROR ''Failed to connect to ElevenLabs AI: {}'' [StrExn (ConnectError msg)],
                Log ERROR ''Error handling connection: {}'' [StrExn (ConnectError msg)],
                Close Browser 1011 (StrExn (ConnectError msg))],
             tasks := [], pending := []\<rparr>)"
    using split assms(2,4)
    by (simp add: hybrid_handle_browser_connection_def hybrid_connection_try_def
        connect_to_elevenlabs_ai_def connection_except_def hybrid_cleanup_def await_close_def
        relay_defs Let_def)
  have b: "hybrid_handle_browser_connection cfg path Connected (Refused msg) ins h =
       Ok (h\<lparr>closed := (closed h)(AI := False, Browser := True),
             trace := trace h @
               [Log INFO ''Browser connected from {}'' [Addr Browser],
                Connect AI (''wss://api.elevenlabs.io/v1/convai/conversation?agent_id=''
                              @ ELEVENLABS_AGENT_ID cfg)
                  [(''xi-api-key'', ELEVENLABS_API_KEY cfg)],
                Log INFO ''Successfully connected to ElevenLabs Conversational AI'' [],
                Connect TTS (''wss://api.elevenlabs.io/v1/text-to-speech/''
                               @ ELEVENLABS_VOICE_ID cfg
                               @ ''/stream-input?model_id=eleven_flash_v2_5'') [],
                Log ERROR ''Failed to connect to ElevenLabs TTS: {}'' [StrExn (ConnectError msg)],
                Log ERROR ''Error handling connection: {}'' [StrExn (ConnectError msg)],
                Close Browser 1011 (StrExn (ConnectError msg))],
             tasks := [], pending := []\<rparr>)"
    using split assms(2,4)
    by (simp add: hybrid_handle_browser_connection_def hybrid_connection_try_def
        connect_to_elevenlabs_ai_def connect_to_elevenlabs_tts_def connection_except_def
        hybrid_cleanup_def await_close_def relay_defs Let_def)
  have c: "handle_browser_connection cfg path (Refused msg) ins s =
       Ok (s\<lparr>closed := (closed s)(Browser := True),
             trace := trace s @
               [Log INFO ''Browser connected from {}'' [Addr Browser],
                Connect AI (''wss://api.elevenlabs.io/v1/convai/conversation?agent_id=''
                              @ ELEVENLABS_AGENT_ID cfg)
                  [(''xi-api-key'', ELEVENLABS_API_KEY cfg)],
                Log ERROR ''Failed to connect to ElevenLabs: {}'' [StrExn (ConnectError msg)],
                Log ERROR ''Error handling connection: {}'' [StrExn (ConnectError msg)],
                Close Browser 1011 (StrExn (ConnectError msg))],
             tasks := [], pending := []\<rparr>)"
    using split assms(3,5)
    by (simp add: handle_browser_connection_def dom_def connection_try_def
        connect_to_elevenlabs_def connection_except_def cleanup_def await_close_def
        relay_defs Let_def)
  have d: "\<not> closed (state_of
         (hybrid_handle_browser_connection cfg path Connected (Refused msg) ins h)) AI"
    by (simp add: b)
  from a b d c show ?thesis by (intro conjI)
qed

text \<open>
  The same at a concrete input: the text-to-speech connect of a three-way connection fails
  with \<^verbatim>\<open>boom\<close>, and the AI socket stays open.
\<close>

theorem upstream_connect_failure_witness:
  "hd (str_split (CHR ''?'') ''/'') = ''/''
   \<and> \<not> closed (accepted :: hybrid) Browser \<and> \<not> closed (accepted :: server) Browser
   \<and> connections (accepted :: hybrid) Browser = None
   \<and> connections (accepted :: server) Browser = None
   \<and> hybrid_handle_browser_connection example_config ''/'' Connected (Refused ''boom'') [] accepted =
       Ok (accepted\<lparr>closed := (\<lambda>s. s = Browser),
             trace :=
               [Log INFO ''Browser connected from {}'' [Addr Browser],
                Connect AI ''wss://api.elevenlabs.io/v1/convai/conversation?agent_id=agent''
                  [(''xi-api-key'', ''key'')],
                Log INFO ''Successfully connected to ElevenLabs Conversational AI'' [],
                Connect TTS
                  ''wss://api.elevenlabs.io/v1/text-to-speech/voice/stream-input?model_id=eleven_flash_v2_5''
                  [],
                Log ERROR ''Failed to connect to ElevenLabs TTS: {}''
                  [StrExn (ConnectError ''boom'')],
                Log ERROR ''Error handling connection: {}'' [StrExn (ConnectError ''boom'')],
                Close Browser 1011 (StrExn (ConnectError ''boom''))]\<rparr>)
   \<and> \<not> closed (state_of
         (hybrid_handle_browser_connection example_config ''/'' Connected (Refused ''boom'') []
            accepted)) AI"
  using upstream_connect_failure
    [of "''/''" accepted accepted example_config "''boom''" Connected "[]"]
  by (auto simp: accepted_def example_config_def fun_eq_iff)

end
